theory Spec2Isabelle
  imports Complex_Main
begin

section \<open>Python values\<close>

text \<open>
  A Python \<open>str\<close> is a sequence of Unicode code points, so it is modelled as a list of
  natural numbers (slicing and \<open>strip\<close> count code points, not bytes). \<open>lit\<close> turns an
  ASCII literal into such a string; the pictographs of the status reports are given by
  their code points.
\<close>

type_synonym pystr = "nat list"

definition lit :: "string \<Rightarrow> pystr" where
  "lit s = map of_char s"

definition cross_mark :: pystr where
  "cross_mark = [0x274C]"

definition check_mark :: pystr where
  "check_mark = [0x2705]"

definition warning_sign :: pystr where
  "warning_sign = [0x26A0, 0xFE0F]"

definition folder_sign :: pystr where
  "folder_sign = [0x1F4C1]"

definition key_sign :: pystr where
  "key_sign = [0x1F511]"

text \<open>\<open>str.isspace\<close> for one code point: the table of CPython's \<open>_PyUnicode_IsWhitespace\<close>.\<close>

definition py_isspace :: "nat \<Rightarrow> bool" where
  "py_isspace c \<longleftrightarrow>
     (0x09 \<le> c \<and> c \<le> 0x0D) \<or> (0x1C \<le> c \<and> c \<le> 0x20) \<or> c = 0x85 \<or> c = 0xA0 \<or>
     c = 0x1680 \<or> (0x2000 \<le> c \<and> c \<le> 0x200A) \<or> c = 0x2028 \<or> c = 0x2029 \<or>
     c = 0x202F \<or> c = 0x205F \<or> c = 0x3000"

definition py_strip :: "pystr \<Rightarrow> pystr" where
  "py_strip s = rev (dropWhile py_isspace (rev (dropWhile py_isspace s)))"

text \<open>
  \<open>s.replace(old, new)\<close>: every non-overlapping occurrence, leftmost first. With an empty
  \<open>old\<close> Python puts \<open>new\<close> around every code point.
\<close>

function replace_from :: "pystr \<Rightarrow> pystr \<Rightarrow> pystr \<Rightarrow> pystr" where
  "replace_from old new [] = []"
| "replace_from old new (c # cs) =
     (if old \<noteq> [] \<and> take (length old) (c # cs) = old
      then new @ replace_from old new (drop (length old) (c # cs))
      else c # replace_from old new cs)"
  by pat_completeness auto
termination
  by (relation "measure (\<lambda>(old, new, s). length s)") auto

definition py_replace :: "pystr \<Rightarrow> pystr \<Rightarrow> pystr \<Rightarrow> pystr" where
  "py_replace s old new =
     (if old = [] then new @ concat (map (\<lambda>c. c # new) s) else replace_from old new s)"

fun py_join :: "pystr \<Rightarrow> pystr list \<Rightarrow> pystr" where
  "py_join sep [] = []"
| "py_join sep [x] = x"
| "py_join sep (x # y # ys) = x @ sep @ py_join sep (y # ys)"

text \<open>
  The values a message or a descriptor file can hold: what a JSON document decodes to in
  Python. A decoded object is a \<open>dict\<close>: an association list in insertion order, looked
  up with \<open>map_of\<close>. Floats keep only what the code can observe of them.
\<close>

datatype pyfloat = Finite rat | PosInf | NegInf | NaN

datatype json =
    JNull
  | JBool bool
  | JInt int
  | JFloat pyfloat
  | JStr pystr
  | JArr "json list"
  | JObj "(pystr \<times> json) list"

type_synonym pydict = "(pystr \<times> json) list"

text \<open>Python's truth value of an object: \<open>if x:\<close>.\<close>

fun truthy :: "json \<Rightarrow> bool" where
  "truthy JNull = False"
| "truthy (JBool b) = b"
| "truthy (JInt n) = (n \<noteq> 0)"
| "truthy (JFloat (Finite q)) = (q \<noteq> 0)"
| "truthy (JFloat f) = True"
| "truthy (JStr s) = (s \<noteq> [])"
| "truthy (JArr xs) = (xs \<noteq> [])"
| "truthy (JObj kvs) = (kvs \<noteq> [])"

text \<open>
  The exceptions the code can meet. The ones of the first four kinds are raised by Python
  itself inside the modelled functions or by the subprocess module; \<open>Raised\<close> stands for
  any exception an external call raises (a queue timeout, a transport error, a JSON
  decoding error, ...), told apart by its text.
\<close>

datatype py_exc =
    KeyError pystr
  | TypeError
  | AttributeError
  | TimeoutExpired
  | Raised pystr

text \<open>
  Two builtins of Python are parameters of the model, since their results are fixed by the
  interpreter and not by this program: \<open>str(e)\<close> of an exception, and \<open>str(v)\<close> of a
  value that is not a string (an f-string formats a string as itself).
\<close>

record py_builtins =
  exc_str :: "py_exc \<Rightarrow> pystr"
  obj_str :: "json \<Rightarrow> pystr"

definition fmt :: "py_builtins \<Rightarrow> json \<Rightarrow> pystr" where
  "fmt py v = (case v of JStr s \<Rightarrow> s | _ \<Rightarrow> obj_str py v)"

text \<open>\<open>d.get(k, default)\<close> on a dict.\<close>

definition dict_get :: "pydict \<Rightarrow> pystr \<Rightarrow> json \<Rightarrow> json" where
  "dict_get d k dflt = (case map_of d k of Some v \<Rightarrow> v | None \<Rightarrow> dflt)"

text \<open>\<open>v.get(k, default)\<close> on any value: only a dict has the method.\<close>

definition obj_get :: "json \<Rightarrow> pystr \<Rightarrow> json \<Rightarrow> py_exc + json" where
  "obj_get v k dflt = (case v of JObj d \<Rightarrow> Inr (dict_get d k dflt) | _ \<Rightarrow> Inl AttributeError)"

section \<open>Connection Resolver\<close>

text \<open>
  What \<open>resolve_connection_file\<close> reads from its surroundings: the process environment,
  the path \<open>str(resources.files(ipython_mcp) / 'default_connection.json')\<close> (or the
  exception that the import or the lookup raises), and the path
  \<open>str(Path(__file__).parent / 'default_connection.json')\<close> of the fallback.
\<close>

record os_env =
  environ :: "pystr \<rightharpoonup> pystr"
  resources_default :: "py_exc + pystr"
  package_dir_default :: pystr

text \<open>\<open>if s:\<close> on an optional string: neither \<open>None\<close> nor empty.\<close>

definition str_truthy :: "pystr option \<Rightarrow> bool" where
  "str_truthy x = (case x of None \<Rightarrow> False | Some s \<Rightarrow> s \<noteq> [])"

definition package_default :: "os_env \<Rightarrow> pystr" where
  "package_default env =
     (case resources_default env of Inr p \<Rightarrow> p | Inl e \<Rightarrow> package_dir_default env)"

definition resolve_connection_file :: "os_env \<Rightarrow> pystr option \<Rightarrow> pystr" where
  "resolve_connection_file env connection_file =
     (if str_truthy connection_file then the connection_file
      else let env_connection = environ env (lit ''IPYTHON_MCP_CONNECTION'') in
        if str_truthy env_connection then the env_connection
        else package_default env)"

section \<open>Session State and the outside world\<close>

text \<open>
  The two module globals. A client object (\<open>BlockingKernelClient\<close>) is known by its
  identity, a process object (\<open>subprocess.Popen\<close>) by its pid; both objects are true in a
  condition, so \<open>if kernel_client:\<close> asks whether the slot is not \<open>None\<close>.
\<close>

type_synonym handle = nat

record process =
  pid :: nat

record session =
  kernel_client :: "handle option"
  kernel_process :: "process option"

text \<open>
  The calls the program makes on client and process objects, and what they leave behind:
  \<open>live\<close> holds the clients on which \<open>start_channels\<close> has been called and no
  \<open>stop_channels\<close> has returned since (the clients that may hold channel resources),
  \<open>calls\<close> is the record of the calls in the order they were made.
\<close>

datatype event =
    NewClient handle
  | LoadConnectionInfo handle
  | StartChannels handle
  | WaitForReady handle
  | StopChannels handle
  | ShutdownRequest handle
  | Poll nat
  | Terminate nat
  | WaitTimeout nat
  | Kill nat
  | Wait nat

record world =
  next_handle :: handle
  live :: "handle set"
  calls :: "event list"

text \<open>
  What the outside world answers during one operation. A call that returns nothing is
  answered by \<open>None\<close> when it returns and by \<open>Some e\<close> when it raises \<open>e\<close>.
\<close>

type_synonym outcome = "py_exc option"

datatype iopub_read = IopubMsg pydict | IopubRaises py_exc

record externals =
  expanduser :: "pystr \<Rightarrow> py_exc + pystr"
  path_exists :: "pystr \<Rightarrow> bool"
  read_json :: "pystr \<Rightarrow> py_exc + json"
  load_connection_info_result :: outcome
  start_channels_result :: outcome
  wait_for_ready_result :: outcome
  stop_channels_result :: outcome
  shutdown_result :: outcome
  poll_result :: "py_exc + int option"
  terminate_result :: outcome
  wait_timeout_result :: outcome
  kill_result :: outcome
  wait_result :: outcome
  execute_result :: "pystr \<Rightarrow> py_exc + pystr"
  shell_reply :: "py_exc + pydict"
  iopub :: "nat \<Rightarrow> iopub_read"

definition record_call :: "event \<Rightarrow> world \<Rightarrow> world" where
  "record_call ev w = w\<lparr>calls := calls w @ [ev]\<rparr>"

definition new_client :: "world \<Rightarrow> handle \<times> world" where
  "new_client w =
     (next_handle w, record_call (NewClient (next_handle w)) (w\<lparr>next_handle := Suc (next_handle w)\<rparr>))"

definition start_channels :: "handle \<Rightarrow> world \<Rightarrow> world" where
  "start_channels h w = record_call (StartChannels h) (w\<lparr>live := insert h (live w)\<rparr>)"

definition stop_channels :: "outcome \<Rightarrow> handle \<Rightarrow> world \<Rightarrow> world" where
  "stop_channels r h w =
     record_call (StopChannels h) (case r of None \<Rightarrow> w\<lparr>live := live w - {h}\<rparr> | Some e \<Rightarrow> w)"

section \<open>Lifecycle Controller: disconnect\<close>

definition disconnect_kernel ::
  "py_builtins \<Rightarrow> externals \<Rightarrow> session \<times> world \<Rightarrow> pystr \<times> session \<times> world" where
  "disconnect_kernel py io sw =
     (case sw of (s, w) \<Rightarrow>
       (case kernel_client s of
          None \<Rightarrow> (check_mark @ lit '' Disconnected from kernel'', s, w)
        | Some h \<Rightarrow>
            (case stop_channels_result io of
               None \<Rightarrow>
                 (check_mark @ lit '' Disconnected from kernel'',
                  s\<lparr>kernel_client := None\<rparr>, stop_channels None h w)
             | Some e \<Rightarrow>
                 (cross_mark @ lit '' Error during disconnection: '' @ exc_str py e,
                  s, stop_channels (Some e) h w))))"

section \<open>Session Connector\<close>

text \<open>\<open>v[k]\<close> with a string key: only a dict can be subscripted by a string.\<close>

definition subscript :: "json \<Rightarrow> pystr \<Rightarrow> py_exc + json" where
  "subscript v k =
     (case v of
        JObj d \<Rightarrow> (case map_of d k of Some x \<Rightarrow> Inr x | None \<Rightarrow> Inl (KeyError k))
      | _ \<Rightarrow> Inl TypeError)"

text \<open>
  \<open>v[:n]\<close>: strings and lists can be sliced; a slice of anything else raises (a dict
  raises \<open>TypeError\<close> up to Python 3.11 and \<open>KeyError\<close> after; the model says \<open>TypeError\<close>).
\<close>

definition slice_to :: "nat \<Rightarrow> json \<Rightarrow> py_exc + json" where
  "slice_to n v =
     (case v of
        JStr s \<Rightarrow> Inr (JStr (take n s))
      | JArr xs \<Rightarrow> Inr (JArr (take n xs))
      | _ \<Rightarrow> Inl TypeError)"

definition windows_notice :: "bool \<Rightarrow> pystr" where
  "windows_notice is_windows =
     (if is_windows
      then [0x0A] @ warning_sign @
        lit '' Note: interrupt_kernel() not supported on Windows - use Ctrl+C in kernel window to interrupt execution''
      else [])"

text \<open>The report of a successful connect; its f-string reads the descriptor left to right.\<close>

definition connected_report ::
  "py_builtins \<Rightarrow> bool \<Rightarrow> json \<Rightarrow> pystr \<Rightarrow> py_exc + pystr" where
  "connected_report py is_windows connection_info connection_path =
     (case subscript connection_info (lit ''ip'') of
        Inl e \<Rightarrow> Inl e
      | Inr ip \<Rightarrow>
     (case subscript connection_info (lit ''shell_port'') of
        Inl e \<Rightarrow> Inl e
      | Inr shell_port \<Rightarrow>
     (case subscript connection_info (lit ''key'') of
        Inl e \<Rightarrow> Inl e
      | Inr k \<Rightarrow>
     (case slice_to 8 k of
        Inl e \<Rightarrow> Inl e
      | Inr k8 \<Rightarrow>
          Inr (check_mark @ lit '' Connected to IPython kernel at '' @ fmt py ip @ lit '':'' @
               fmt py shell_port @ [0x0A] @ folder_sign @ lit '' Connection file: '' @
               connection_path @ [0x0A] @ key_sign @ lit '' Using key: '' @ fmt py k8 @
               lit ''...'' @ windows_notice is_windows)))))"

definition connect_failed :: "py_builtins \<Rightarrow> py_exc \<Rightarrow> pystr" where
  "connect_failed py e = cross_mark @ lit '' Failed to connect: '' @ exc_str py e"

text \<open>
  Lines 183 to 185: \<open>if kernel_client: kernel_client.stop_channels()\<close>, with the exception
  it may raise.
\<close>

definition close_existing :: "externals \<Rightarrow> session \<Rightarrow> world \<Rightarrow> outcome \<times> world" where
  "close_existing io s w =
     (case kernel_client s of
        None \<Rightarrow> (None, w)
      | Some h \<Rightarrow> (stop_channels_result io, stop_channels (stop_channels_result io) h w))"

text \<open>
  Lines 183 to 203 of the source: what \<open>connect_to_kernel\<close> does once the descriptor
  file has been read. Every client call is recorded, whether it returns or raises; the
  constructor \<open>BlockingKernelClient()\<close> is taken to return. The new client is stored in
  the slot as soon as it is created, before its channels are started and before the
  readiness wait, and no later branch takes it out again.
\<close>

definition open_connection ::
  "py_builtins \<Rightarrow> bool \<Rightarrow> externals \<Rightarrow> json \<Rightarrow> pystr \<Rightarrow> session \<times> world
     \<Rightarrow> pystr \<times> session \<times> world" where
  "open_connection py is_windows io connection_info connection_path sw =
     (case sw of (s, w) \<Rightarrow>
       (case close_existing io s w of
          (Some e, w1) \<Rightarrow> (connect_failed py e, s, w1)
        | (None, w1) \<Rightarrow>
            (case new_client w1 of (h', w2) \<Rightarrow>
              let s' = s\<lparr>kernel_client := Some h'\<rparr>;
                  w3 = record_call (LoadConnectionInfo h') w2
              in
              (case load_connection_info_result io of
                 Some e \<Rightarrow> (connect_failed py e, s', w3)
               | None \<Rightarrow>
                   let w4 = start_channels h' w3 in
                   (case start_channels_result io of
                      Some e \<Rightarrow> (connect_failed py e, s', w4)
                    | None \<Rightarrow>
                        let w5 = record_call (WaitForReady h') w4 in
                        (case wait_for_ready_result io of
                           Some e \<Rightarrow>
                             (cross_mark @ lit '' Failed to connect to kernel: '' @ exc_str py e,
                              s', w5)
                         | None \<Rightarrow>
                             (case connected_report py is_windows connection_info connection_path of
                                Inl e \<Rightarrow> (connect_failed py e, s', w5)
                              | Inr r \<Rightarrow> (r, s', w5))))))))"

definition connect_to_kernel ::
  "py_builtins \<Rightarrow> os_env \<Rightarrow> bool \<Rightarrow> externals \<Rightarrow> pystr option \<Rightarrow> session \<times> world
     \<Rightarrow> pystr \<times> session \<times> world" where
  "connect_to_kernel py env is_windows io connection_file sw =
     (case sw of (s, w) \<Rightarrow>
       let resolved_file = resolve_connection_file env connection_file in
       (case expanduser io resolved_file of
          Inl e \<Rightarrow> (connect_failed py e, s, w)
        | Inr connection_path \<Rightarrow>
            if \<not> path_exists io connection_path
            then (cross_mark @ lit '' Connection file not found: '' @ connection_path, s, w)
            else
              (case read_json io connection_path of
                 Inl e \<Rightarrow> (connect_failed py e, s, w)
               | Inr connection_info \<Rightarrow>
                   open_connection py is_windows io connection_info connection_path (s, w))))"

section \<open>Lifecycle Controller: shutdown\<close>

text \<open>
  The body of the inner \<open>try\<close> of step 2, up to the \<open>disconnect_kernel()\<close> call: the same
  calls on Windows and on Unix. The result is the exception that reaches
  \<open>except Exception as e\<close>, if any.
\<close>

definition terminate_process :: "externals \<Rightarrow> process \<Rightarrow> world \<Rightarrow> outcome \<times> world" where
  "terminate_process io p w =
     (let w1 = record_call (Terminate (pid p)) w in
      (case terminate_result io of
         Some e \<Rightarrow> (Some e, w1)
       | None \<Rightarrow>
           let w2 = record_call (WaitTimeout (pid p)) w1 in
           (case wait_timeout_result io of
              None \<Rightarrow> (None, w2)
            | Some TimeoutExpired \<Rightarrow>
                let w3 = record_call (Kill (pid p)) w2 in
                (case kill_result io of
                   Some e \<Rightarrow> (Some e, w3)
                 | None \<Rightarrow> (wait_result io, record_call (Wait (pid p)) w3))
            | Some e \<Rightarrow> (Some e, w2))))"

text \<open>Step 3: \<open>disconnect_kernel()\<close>, whose report is dropped, and the closing report.\<close>

definition close_connections ::
  "py_builtins \<Rightarrow> externals \<Rightarrow> pystr \<Rightarrow> session \<times> world \<Rightarrow> pystr \<times> session \<times> world" where
  "close_connections py io report sw =
     (case disconnect_kernel py io sw of (r, s', w') \<Rightarrow> (report, s', w'))"

text \<open>
  Steps 2 and 3, entered when the shutdown request of step 1 has raised. An exception of
  \<open>kernel_process.poll()\<close> is the only one that can reach the outer \<open>except\<close> of line 398.
  No branch assigns \<open>kernel_process\<close>: the process slot is written by \<open>start_kernel\<close> only.
\<close>

definition forceful_shutdown ::
  "py_builtins \<Rightarrow> bool \<Rightarrow> externals \<Rightarrow> session \<times> world \<Rightarrow> pystr \<times> session \<times> world" where
  "forceful_shutdown py is_windows io sw =
     (case sw of (s, w) \<Rightarrow>
       (case kernel_process s of
          None \<Rightarrow>
            close_connections py io
              (check_mark @ lit '' Kernel connections closed (process may still be running)'') (s, w)
        | Some p \<Rightarrow>
            let w1 = record_call (Poll (pid p)) w in
            (case poll_result io of
               Inl e \<Rightarrow>
                 close_connections py io
                   (cross_mark @ lit '' Shutdown failed: '' @ exc_str py e @
                    lit '', but connections closed'') (s, w1)
             | Inr (Some returncode) \<Rightarrow>
                 close_connections py io
                   (check_mark @ lit '' Kernel connections closed (process may still be running)'')
                   (s, w1)
             | Inr None \<Rightarrow>
                 (case terminate_process io p w1 of
                    (None, w2) \<Rightarrow>
                      close_connections py io
                        (if is_windows
                         then check_mark @ lit '' Kernel shutdown forcefully (Windows terminate/kill)''
                         else check_mark @ lit '' Kernel shutdown forcefully (Unix SIGTERM/SIGKILL)'')
                        (s, w2)
                  | (Some e, w2) \<Rightarrow>
                      close_connections py io
                        (warning_sign @ lit '' Kernel process termination failed: '' @ exc_str py e @
                         lit '', but connections closed'') (s, w2)))))"

definition shutdown_kernel ::
  "py_builtins \<Rightarrow> bool \<Rightarrow> externals \<Rightarrow> session \<times> world \<Rightarrow> pystr \<times> session \<times> world" where
  "shutdown_kernel py is_windows io sw =
     (case sw of (s, w) \<Rightarrow>
       (case kernel_client s of
          None \<Rightarrow> (cross_mark @ lit '' Not connected to any kernel'', s, w)
        | Some h \<Rightarrow>
            let w1 = record_call (ShutdownRequest h) w in
            (case shutdown_result io of
               None \<Rightarrow>
                 close_connections py io
                   (check_mark @ lit '' Kernel shutdown gracefully via Jupyter protocol'') (s, w1)
             | Some e \<Rightarrow> forceful_shutdown py is_windows io (s, w1))))"

section \<open>Execution Coordinator\<close>

text \<open>
  \<open>output_parts\<close> is a Python list: the stream and error branches append strings, the
  \<open>execute_result\<close> branch appends whatever value the message carries, so the list holds
  values and the final \<open>join\<close> can fail.
\<close>

datatype loop_step = Continue "json list" | Break "json list"

definition on_stream :: "json \<Rightarrow> json list \<Rightarrow> py_exc + loop_step" where
  "on_stream content output_parts =
     (case obj_get content (lit ''text'') (JStr []) of
        Inl e \<Rightarrow> Inl e
      | Inr (JStr s) \<Rightarrow>
          let stream_text = py_strip s in
          Inr (Continue (if stream_text \<noteq> [] then output_parts @ [JStr stream_text]
                         else output_parts))
      | Inr other \<Rightarrow> Inl AttributeError)"

definition on_execute_result :: "json \<Rightarrow> json list \<Rightarrow> py_exc + loop_step" where
  "on_execute_result content output_parts =
     (case obj_get content (lit ''data'') (JObj []) of
        Inl e \<Rightarrow> Inl e
      | Inr d \<Rightarrow>
          (case obj_get d (lit ''text/plain'') (JStr []) of
             Inl e \<Rightarrow> Inl e
           | Inr result \<Rightarrow>
               Inr (Continue (if truthy result then output_parts @ [result] else output_parts))))"

text \<open>
  \<open>for line in traceback\<close>: a list gives its items, a string its code points, a dict its
  keys; nothing else the decoder produces can be iterated.
\<close>

definition py_iter :: "json \<Rightarrow> py_exc + json list" where
  "py_iter v =
     (case v of
        JArr xs \<Rightarrow> Inr xs
      | JStr s \<Rightarrow> Inr (map (\<lambda>c. JStr [c]) s)
      | JObj d \<Rightarrow> Inr (map (\<lambda>kv. JStr (fst kv)) d)
      | _ \<Rightarrow> Inl TypeError)"

definition clean_line :: "json \<Rightarrow> py_exc + pystr" where
  "clean_line line =
     (case line of
        JStr s \<Rightarrow>
          Inr (py_replace
                 (py_replace
                    (py_replace (py_replace s (0x1B # lit ''[0;31m'') []) (0x1B # lit ''[0m'') [])
                    (0x1B # lit ''[1;32m'') [])
                 (0x1B # lit ''[0;32m'') [])
      | _ \<Rightarrow> Inl AttributeError)"

fun clean_lines :: "json list \<Rightarrow> py_exc + pystr list" where
  "clean_lines [] = Inr []"
| "clean_lines (line # rest) =
     (case clean_line line of
        Inl e \<Rightarrow> Inl e
      | Inr c \<Rightarrow> (case clean_lines rest of Inl e \<Rightarrow> Inl e | Inr cs \<Rightarrow> Inr (c # cs)))"

definition on_error :: "py_builtins \<Rightarrow> json \<Rightarrow> json list \<Rightarrow> py_exc + loop_step" where
  "on_error py content output_parts =
     (case obj_get content (lit ''ename'') (JStr (lit ''Error'')) of
        Inl e \<Rightarrow> Inl e
      | Inr error_name \<Rightarrow>
     (case obj_get content (lit ''evalue'') (JStr []) of
        Inl e \<Rightarrow> Inl e
      | Inr error_value \<Rightarrow>
     (case obj_get content (lit ''traceback'') (JArr []) of
        Inl e \<Rightarrow> Inl e
      | Inr traceback \<Rightarrow>
          let error_msg = fmt py error_name @ lit '': '' @ fmt py error_value in
          if truthy traceback
          then
            (case py_iter traceback of
               Inl e \<Rightarrow> Inl e
             | Inr lines \<Rightarrow>
                 (case clean_lines lines of
                    Inl e \<Rightarrow> Inl e
                  | Inr clean_traceback \<Rightarrow>
                      Inr (Continue (output_parts @
                        [JStr (cross_mark @ lit '' '' @ error_msg @ [0x0A] @
                               py_join [0x0A] clean_traceback)]))))
          else Inr (Continue (output_parts @ [JStr (cross_mark @ lit '' '' @ error_msg)])))))"

definition on_status :: "json \<Rightarrow> json list \<Rightarrow> py_exc + loop_step" where
  "on_status content output_parts =
     (case obj_get content (lit ''execution_state'') JNull of
        Inl e \<Rightarrow> Inl e
      | Inr state \<Rightarrow>
          Inr (if state = JStr (lit ''idle'') then Break output_parts else Continue output_parts))"

text \<open>\<open>msg.get('parent_header', {}).get('msg_id')\<close>, the correlation id of a broadcast message.\<close>

definition parent_msg_id :: "pydict \<Rightarrow> py_exc + json" where
  "parent_msg_id msg = obj_get (dict_get msg (lit ''parent_header'') (JObj [])) (lit ''msg_id'') JNull"

text \<open>
  What the loop does with a message of this request (lines 243 to 275): the branch of its
  \<open>msg_type\<close>.
\<close>

definition classify :: "py_builtins \<Rightarrow> pydict \<Rightarrow> json list \<Rightarrow> py_exc + loop_step" where
  "classify py msg output_parts =
     (let msg_type = dict_get msg (lit ''msg_type'') JNull;
          content = dict_get msg (lit ''content'') (JObj [])
      in
      if msg_type = JStr (lit ''stream'') then on_stream content output_parts
      else if msg_type = JStr (lit ''execute_result'') then on_execute_result content output_parts
      else if msg_type = JStr (lit ''error'') then on_error py content output_parts
      else if msg_type = JStr (lit ''status'') then on_status content output_parts
      else Inr (Continue output_parts))"

text \<open>One pass of the loop body after a message has been read (lines 239 to 275).\<close>

definition loop_body :: "py_builtins \<Rightarrow> pystr \<Rightarrow> pydict \<Rightarrow> json list \<Rightarrow> py_exc + loop_step" where
  "loop_body py msg_id msg output_parts =
     (case parent_msg_id msg of
        Inl e \<Rightarrow> Inl e
      | Inr parent \<Rightarrow>
          if parent \<noteq> JStr msg_id then Inr (Continue output_parts)
          else classify py msg output_parts)"

text \<open>
  The drain loop \<open>while True\<close>. The broadcast channel is the sequence of the answers of
  \<open>get_iopub_msg(timeout=1)\<close>, read from position \<open>i\<close> on. Any exception in the body (the
  read's timeout included) leaves the loop through \<open>except Exception: break\<close>, with the
  parts collected so far. The loop has no bound of its own: on a channel that never
  stops it does not return, which is the value \<open>None\<close>.
\<close>

partial_function (option) drain ::
  "py_builtins \<Rightarrow> pystr \<Rightarrow> (nat \<Rightarrow> iopub_read) \<Rightarrow> nat \<Rightarrow> json list \<Rightarrow> json list option" where
  "drain py msg_id ch i output_parts =
     (case ch i of
        IopubRaises e \<Rightarrow> Some output_parts
      | IopubMsg msg \<Rightarrow>
          (case loop_body py msg_id msg output_parts of
             Inl e \<Rightarrow> Some output_parts
           | Inr (Continue parts) \<Rightarrow> drain py msg_id ch (Suc i) parts
           | Inr (Break parts) \<Rightarrow> Some parts))"

text \<open>\<open>"\n".join(output_parts)\<close>: every item has to be a string.\<close>

fun strings_of :: "json list \<Rightarrow> py_exc + pystr list" where
  "strings_of [] = Inr []"
| "strings_of (JStr s # rest) =
     (case strings_of rest of Inl e \<Rightarrow> Inl e | Inr ss \<Rightarrow> Inr (s # ss))"
| "strings_of (v # rest) = Inl TypeError"

definition execution_failed :: "py_builtins \<Rightarrow> py_exc \<Rightarrow> pystr" where
  "execution_failed py e = cross_mark @ lit '' Execution failed: '' @ exc_str py e"

text \<open>\<open>reply['content']['status']\<close>.\<close>

definition reply_status :: "pydict \<Rightarrow> py_exc + json" where
  "reply_status reply =
     (case subscript (JObj reply) (lit ''content'') of
        Inl e \<Rightarrow> Inl e
      | Inr content \<Rightarrow> subscript content (lit ''status''))"

text \<open>The error summary of a reply (lines 283 to 285).\<close>

definition error_summary :: "py_builtins \<Rightarrow> json \<Rightarrow> py_exc + pystr" where
  "error_summary py error_info =
     (case obj_get error_info (lit ''ename'') (JStr (lit ''Error'')) of
        Inl e \<Rightarrow> Inl e
      | Inr ename \<Rightarrow>
          (case obj_get error_info (lit ''evalue'') (JStr []) of
             Inl e \<Rightarrow> Inl e
           | Inr evalue \<Rightarrow> Inr (cross_mark @ lit '' '' @ fmt py ename @ lit '': '' @ fmt py evalue)))"

text \<open>Lines 281 to 290: the report, once the loop has been left.\<close>

definition final_report :: "py_builtins \<Rightarrow> pydict \<Rightarrow> json list \<Rightarrow> pystr" where
  "final_report py reply output_parts =
     (case reply_status reply of
        Inl e \<Rightarrow> execution_failed py e
      | Inr status \<Rightarrow>
          if status = JStr (lit ''error'')
          then
            (case subscript (JObj reply) (lit ''content'') of
               Inl e \<Rightarrow> execution_failed py e
             | Inr error_info \<Rightarrow>
                 (case error_summary py error_info of
                    Inl e \<Rightarrow> execution_failed py e
                  | Inr r \<Rightarrow> r))
          else if output_parts = [] then check_mark @ lit '' Code executed successfully (no output)''
          else
            (case strings_of output_parts of
               Inl e \<Rightarrow> execution_failed py e
             | Inr ss \<Rightarrow> py_join [0x0A] ss))"

text \<open>
  \<open>execute_code\<close> reads the connection slot and writes no global, so it maps the session
  and the world's answers to a report; \<open>None\<close> when the drain loop does not return.
\<close>

definition execute_code :: "py_builtins \<Rightarrow> externals \<Rightarrow> pystr \<Rightarrow> session \<Rightarrow> pystr option" where
  "execute_code py io code s =
     (case kernel_client s of
        None \<Rightarrow> Some (cross_mark @ lit '' Not connected to kernel. Use connect_to_kernel() first.'')
      | Some h \<Rightarrow>
          (case execute_result io code of
             Inl e \<Rightarrow> Some (execution_failed py e)
           | Inr msg_id \<Rightarrow>
               (case shell_reply io of
                  Inl e \<Rightarrow> Some (execution_failed py e)
                | Inr reply \<Rightarrow>
                    (case drain py msg_id (iopub io) 0 [] of
                       None \<Rightarrow> None
                     | Some output_parts \<Rightarrow> Some (final_report py reply output_parts)))))"

section \<open>Vocabulary of the properties\<close>

text \<open>
  The loop body only ever appends to \<open>output_parts\<close>: its result on a list is its result
  on the empty list, put behind that list.
\<close>

definition with_parts :: "json list \<Rightarrow> py_exc + loop_step \<Rightarrow> py_exc + loop_step" where
  "with_parts out r =
     (case r of
        Inl e \<Rightarrow> Inl e
      | Inr (Continue ps) \<Rightarrow> Inr (Continue (out @ ps))
      | Inr (Break ps) \<Rightarrow> Inr (Break (out @ ps)))"

text \<open>
  A read makes the drain loop end when it raises, when handling its message raises, or
  when its message is this request's idle status.
\<close>

definition leaves_loop :: "py_builtins \<Rightarrow> pystr \<Rightarrow> iopub_read \<Rightarrow> bool" where
  "leaves_loop py msg_id r =
     (case r of
        IopubRaises e \<Rightarrow> True
      | IopubMsg msg \<Rightarrow>
          (case loop_body py msg_id msg [] of
             Inl e \<Rightarrow> True
           | Inr (Continue ps) \<Rightarrow> False
           | Inr (Break ps) \<Rightarrow> True))"

text \<open>
  \<open>v\<close> is the fragment that the loop collects for some broadcast message whose parent
  correlation id is \<open>msg_id\<close>.
\<close>

definition own_fragment :: "py_builtins \<Rightarrow> pystr \<Rightarrow> (nat \<Rightarrow> iopub_read) \<Rightarrow> json \<Rightarrow> bool" where
  "own_fragment py msg_id ch v \<longleftrightarrow>
     (\<exists>j msg. ch j = IopubMsg msg \<and> parent_msg_id msg = Inr (JStr msg_id) \<and>
        classify py msg [] = Inr (Continue [v]))"

text \<open>
  A foreign message: its parent header can be read and carries another correlation id, or
  none. Two read results agree up to foreign traffic when they are equal or both are
  foreign messages. A foreign read is a read that returns a foreign message.
\<close>

definition foreign :: "pystr \<Rightarrow> pydict \<Rightarrow> bool" where
  "foreign msg_id msg = (case parent_msg_id msg of Inl e \<Rightarrow> False | Inr p \<Rightarrow> p \<noteq> JStr msg_id)"

definition foreign_swap :: "pystr \<Rightarrow> iopub_read \<Rightarrow> iopub_read \<Rightarrow> bool" where
  "foreign_swap msg_id r r' \<longleftrightarrow>
     r = r' \<or> (\<exists>m m'. r = IopubMsg m \<and> r' = IopubMsg m' \<and> foreign msg_id m \<and> foreign msg_id m')"

definition foreign_read :: "pystr \<Rightarrow> iopub_read \<Rightarrow> bool" where
  "foreign_read msg_id r = (case r of IopubMsg m \<Rightarrow> foreign msg_id m | IopubRaises e \<Rightarrow> False)"

text \<open>
  A channel on which a finite queue of read results is waiting and which is silent
  afterwards: every later read times out.
\<close>

definition queued :: "iopub_read list \<Rightarrow> nat \<Rightarrow> iopub_read" where
  "queued rs n = (if n < length rs then rs ! n else IopubRaises (Raised (lit ''Empty'')))"

text \<open>What one read hands to the loop: nothing when the read raises, else the body's result.\<close>

definition read_step ::
  "py_builtins \<Rightarrow> pystr \<Rightarrow> json list \<Rightarrow> iopub_read \<Rightarrow> (py_exc + loop_step) option" where
  "read_step py msg_id out r =
     (case r of
        IopubRaises e \<Rightarrow> None
      | IopubMsg msg \<Rightarrow> Some (loop_body py msg_id msg out))"

text \<open>
  A message of the kinds that C10 speaks of: a status message, or a stream message whose
  text is a string that is empty once stripped.
\<close>

definition silent_msg :: "pydict \<Rightarrow> bool" where
  "silent_msg msg \<longleftrightarrow>
     dict_get msg (lit ''msg_type'') JNull = JStr (lit ''status'') \<or>
     (dict_get msg (lit ''msg_type'') JNull = JStr (lit ''stream'') \<and>
      (case obj_get (dict_get msg (lit ''content'') (JObj [])) (lit ''text'') (JStr []) of
         Inr (JStr s) \<Rightarrow> py_strip s = []
       | _ \<Rightarrow> False))"

text \<open>
  At most one client may hold channel resources, and it is the one in the connection slot;
  the identities handed out so far lie below \<open>next_handle\<close>.
\<close>

definition at_most_one_open :: "session \<times> world \<Rightarrow> bool" where
  "at_most_one_open sw \<longleftrightarrow>
     (case sw of (s, w) \<Rightarrow>
        live w \<subseteq> set_option (kernel_client s) \<and>
        (\<forall>h. kernel_client s = Some h \<longrightarrow> h < next_handle w))"

text \<open>Repeated disconnects, each with its own answers of the outside world.\<close>

fun disconnect_repeatedly ::
  "py_builtins \<Rightarrow> externals list \<Rightarrow> session \<times> world \<Rightarrow> session \<times> world" where
  "disconnect_repeatedly py [] sw = sw"
| "disconnect_repeatedly py (io # ios) sw =
     disconnect_repeatedly py ios (snd (disconnect_kernel py io sw))"

section \<open>Sample inputs\<close>

text \<open>
  Concrete inputs on which the theorems below are instantiated: builtins, a world in
  which every call succeeds, two messages of the protocol, and states with and without a
  connection.
\<close>

definition sample_py :: py_builtins where
  "sample_py = \<lparr>exc_str = (\<lambda>e. case e of Raised s \<Rightarrow> s | _ \<Rightarrow> lit ''error''),
                obj_str = (\<lambda>v. lit ''object'')\<rparr>"

definition sample_io :: externals where
  "sample_io =
     \<lparr>expanduser = Inr,
      path_exists = (\<lambda>p. True),
      read_json = (\<lambda>p. Inr (JObj [(lit ''ip'', JStr (lit ''127.0.0.1'')),
                                   (lit ''shell_port'', JInt 5555),
                                   (lit ''key'', JStr (lit ''0123456789abcdef''))])),
      load_connection_info_result = None,
      start_channels_result = None,
      wait_for_ready_result = None,
      stop_channels_result = None,
      shutdown_result = None,
      poll_result = Inr None,
      terminate_result = None,
      wait_timeout_result = None,
      kill_result = None,
      wait_result = None,
      execute_result = (\<lambda>code. Inr (lit ''req-1'')),
      shell_reply = Inr [(lit ''content'', JObj [(lit ''status'', JStr (lit ''ok''))])],
      iopub = queued []\<rparr>"

definition stream_msg :: "pystr \<Rightarrow> pystr \<Rightarrow> pydict" where
  "stream_msg parent text =
     [(lit ''parent_header'', JObj [(lit ''msg_id'', JStr parent)]),
      (lit ''msg_type'', JStr (lit ''stream'')),
      (lit ''content'', JObj [(lit ''name'', JStr (lit ''stdout'')), (lit ''text'', JStr text)])]"

definition idle_msg :: "pystr \<Rightarrow> pydict" where
  "idle_msg parent =
     [(lit ''parent_header'', JObj [(lit ''msg_id'', JStr parent)]),
      (lit ''msg_type'', JStr (lit ''status'')),
      (lit ''content'', JObj [(lit ''execution_state'', JStr (lit ''idle''))])]"

definition sample_session :: session where
  "sample_session = \<lparr>kernel_client = Some 0, kernel_process = Some \<lparr>pid = 4242\<rparr>\<rparr>"

definition sample_world :: world where
  "sample_world =
     \<lparr>next_handle = 1, live = {0},
      calls = [NewClient 0, LoadConnectionInfo 0, StartChannels 0, WaitForReady 0]\<rparr>"

definition sample_env :: os_env where
  "sample_env =
     \<lparr>environ = Map.empty,
      resources_default = Inr (lit ''/pkg/default_connection.json''),
      package_dir_default = lit ''/src/default_connection.json''\<rparr>"

definition empty_session :: session where
  "empty_session = \<lparr>kernel_client = None, kernel_process = None\<rparr>"

definition fresh_world :: world where
  "fresh_world = \<lparr>next_handle = 0, live = {}, calls = []\<rparr>"

section \<open>Properties of the resolver\<close>

text \<open>
  C6: resolve_connection_file returns the explicit argument when it is set and
  non-empty, whatever the environment holds; otherwise the value of
  IPYTHON_MCP_CONNECTION when that is set and non-empty; otherwise the default path of
  the package.
\<close>

theorem resolve_connection_file_precedence:
  "(connection_file = Some p \<and> p \<noteq> [] \<longrightarrow> resolve_connection_file env connection_file = p) \<and>
   (\<not> str_truthy connection_file \<and> environ env (lit ''IPYTHON_MCP_CONNECTION'') = Some q \<and> q \<noteq> []
      \<longrightarrow> resolve_connection_file env connection_file = q) \<and>
   (\<not> str_truthy connection_file \<and> \<not> str_truthy (environ env (lit ''IPYTHON_MCP_CONNECTION''))
      \<longrightarrow> resolve_connection_file env connection_file = package_default env)"
  by (simp add: resolve_connection_file_def str_truthy_def)

theorem resolve_connection_file_precedence_witness:
  "resolve_connection_file
     \<lparr>environ = [lit ''IPYTHON_MCP_CONNECTION'' \<mapsto> lit ''/tmp/env.json''],
      resources_default = Inr (lit ''/pkg/default_connection.json''),
      package_dir_default = lit ''/src/default_connection.json''\<rparr>
     (Some (lit ''/tmp/explicit.json'')) = lit ''/tmp/explicit.json'' \<and>
   resolve_connection_file
     \<lparr>environ = [lit ''IPYTHON_MCP_CONNECTION'' \<mapsto> lit ''/tmp/env.json''],
      resources_default = Inr (lit ''/pkg/default_connection.json''),
      package_dir_default = lit ''/src/default_connection.json''\<rparr>
     (Some []) = lit ''/tmp/env.json'' \<and>
   resolve_connection_file
     \<lparr>environ = [lit ''IPYTHON_MCP_CONNECTION'' \<mapsto> []],
      resources_default = Inr (lit ''/pkg/default_connection.json''),
      package_dir_default = lit ''/src/default_connection.json''\<rparr>
     None = lit ''/pkg/default_connection.json''"
proof -
  let ?e1 = "\<lparr>environ = [lit ''IPYTHON_MCP_CONNECTION'' \<mapsto> lit ''/tmp/env.json''],
      resources_default = Inr (lit ''/pkg/default_connection.json''),
      package_dir_default = lit ''/src/default_connection.json''\<rparr>"
  let ?e2 = "\<lparr>environ = [lit ''IPYTHON_MCP_CONNECTION'' \<mapsto> []],
      resources_default = Inr (lit ''/pkg/default_connection.json''),
      package_dir_default = lit ''/src/default_connection.json''\<rparr>"
  have a: "lit ''/tmp/explicit.json'' \<noteq> []" and b: "lit ''/tmp/env.json'' \<noteq> []"
    by (simp_all add: lit_def)
  from a resolve_connection_file_precedence
    [of "Some (lit ''/tmp/explicit.json'')" "lit ''/tmp/explicit.json''" ?e1]
  have 1: "resolve_connection_file ?e1 (Some (lit ''/tmp/explicit.json'')) = lit ''/tmp/explicit.json''"
    by simp
  from b resolve_connection_file_precedence [of "Some []" _ ?e1 "lit ''/tmp/env.json''"]
  have 2: "resolve_connection_file ?e1 (Some []) = lit ''/tmp/env.json''"
    by (simp add: str_truthy_def)
  from resolve_connection_file_precedence [of None _ ?e2]
  have 3: "resolve_connection_file ?e2 None = lit ''/pkg/default_connection.json''"
    by (simp add: str_truthy_def package_default_def)
  from 1 2 3 show ?thesis by simp
qed

section \<open>The drain loop\<close>

lemma with_parts_simps:
  "with_parts out (Inl e) = Inl e"
  "with_parts out (Inr (Continue ps)) = Inr (Continue (out @ ps))"
  "with_parts out (Inr (Break ps)) = Inr (Break (out @ ps))"
  by (simp_all add: with_parts_def)

lemma on_stream_acc: "on_stream c out = with_parts out (on_stream c [])"
  by (simp add: on_stream_def with_parts_def Let_def split: sum.splits json.splits)

lemma on_execute_result_acc: "on_execute_result c out = with_parts out (on_execute_result c [])"
  by (simp add: on_execute_result_def with_parts_def split: sum.splits)

lemma on_error_acc: "on_error py c out = with_parts out (on_error py c [])"
  by (simp add: on_error_def with_parts_def Let_def split: sum.splits)

lemma on_status_acc: "on_status c out = with_parts out (on_status c [])"
  by (simp add: on_status_def with_parts_def split: sum.splits)

lemma classify_acc: "classify py msg out = with_parts out (classify py msg [])"
  unfolding classify_def Let_def
  using on_stream_acc[of _ out] on_execute_result_acc[of _ out] on_error_acc[of py _ out] on_status_acc[of _ out]
  by (simp add: with_parts_simps)

lemma loop_body_acc: "loop_body py mid msg out = with_parts out (loop_body py mid msg [])"
  unfolding loop_body_def using classify_acc[of py msg out]
  by (simp add: with_parts_simps split: sum.splits)

lemma classify_one: "classify py msg [] = Inr (Continue ps) \<Longrightarrow> ps = [] \<or> (\<exists>v. ps = [v])"
  by (auto simp: classify_def Let_def on_stream_def on_execute_result_def on_error_def on_status_def split: if_splits sum.splits json.splits)

lemma classify_break: "classify py msg [] = Inr (Break ps) \<Longrightarrow> ps = []"
  by (auto simp: classify_def Let_def on_stream_def on_execute_result_def on_error_def on_status_def split: if_splits sum.splits json.splits)

text \<open>The loop returns as soon as some read makes it end.\<close>

lemma drain_leaves:
  "leaves_loop py mid (ch i) \<Longrightarrow> \<exists>r. drain py mid ch i out = Some r"
  apply (subst drain.simps)
  apply (subst loop_body_acc)
  apply (auto simp: leaves_loop_def with_parts_simps split: iopub_read.splits sum.splits loop_step.splits)
  done

lemma drain_step:
  "\<not> leaves_loop py mid (ch i) \<Longrightarrow> \<exists>out'. drain py mid ch i out = drain py mid ch (Suc i) out'"
  apply (subst drain.simps)
  apply (subst loop_body_acc)
  apply (auto simp: leaves_loop_def with_parts_simps split: iopub_read.splits sum.splits loop_step.splits)
  done

lemma drain_returns_from:
  "leaves_loop py mid (ch (i + k)) \<Longrightarrow> \<exists>r. drain py mid ch i out = Some r"
proof (induction k arbitrary: i out)
  case 0
  then show ?case using drain_leaves[of py mid ch i out] by simp
next
  case (Suc k)
  show ?case
  proof (cases "leaves_loop py mid (ch i)")
    case True
    then show ?thesis by (rule drain_leaves)
  next
    case False
    then obtain out' where "drain py mid ch i out = drain py mid ch (Suc i) out'"
      using drain_step by blast
    moreover from Suc.prems have "leaves_loop py mid (ch (Suc i + k))" by simp
    then have "\<exists>r. drain py mid ch (Suc i) out' = Some r" by (rule Suc.IH)
    ultimately show ?thesis by simp
  qed
qed

lemma drain_returns:
  "leaves_loop py mid (ch n) \<Longrightarrow> \<exists>r. drain py mid ch 0 out = Some r"
  using drain_returns_from[of py mid ch 0 n out] by simp

text \<open>Whatever the loop returns was there before or is the fragment of a message of this request.\<close>

lemma loop_body_parts:
  assumes "loop_body py mid msg out = Inr st" "ch i = IopubMsg msg"
  shows "\<forall>v\<in>set (case st of Continue ps \<Rightarrow> ps | Break ps \<Rightarrow> ps). v \<in> set out \<or> own_fragment py mid ch v"
proof (cases "parent_msg_id msg")
  case (Inl e)
  with assms show ?thesis by (simp add: loop_body_def)
next
  case (Inr parent)
  show ?thesis
  proof (cases "parent = JStr mid")
    case False
    with Inr assms show ?thesis by (auto simp: loop_body_def)
  next
    case True
    with Inr assms(1) have c: "with_parts out (classify py msg []) = Inr st"
      using classify_acc[of py msg out] by (simp add: loop_body_def)
    show ?thesis
    proof (cases "classify py msg []")
      case (Inl e)
      with c show ?thesis by (simp add: with_parts_simps)
    next
      case r: (Inr st0)
      show ?thesis
      proof (cases st0)
        case (Continue ps)
        with r c have st: "st = Continue (out @ ps)" by (simp add: with_parts_simps)
        from r Continue classify_one[of py msg ps] have "ps = [] \<or> (\<exists>v. ps = [v])" by simp
        then show ?thesis
        proof
          assume "ps = []" with st show ?thesis by simp
        next
          assume "\<exists>v. ps = [v]"
          then obtain v where v: "ps = [v]" ..
          with r Continue Inr True assms(2) have "own_fragment py mid ch v"
            unfolding own_fragment_def by blast
          with st v show ?thesis by simp
        qed
      next
        case (Break ps)
        with r classify_break[of py msg ps] have "ps = []" by simp
        with r c Break show ?thesis by (auto simp add: with_parts_simps)
      qed
    qed
  qed
qed

lemma drain_parts:
  "drain py mid ch i out = Some r \<Longrightarrow> \<forall>v\<in>set r. v \<in> set out \<or> own_fragment py mid ch v"
proof (induction py mid ch i out r rule: drain.raw_induct[rotated, consumes 1])
  case (1 drain py mid ch i out r)
  show ?case
  proof (cases "ch i")
    case (IopubRaises e)
    with 1(2) show ?thesis by simp
  next
    case (IopubMsg msg)
    show ?thesis
    proof (cases "loop_body py mid msg out")
      case (Inl e)
      with 1(2) IopubMsg show ?thesis by simp
    next
      case (Inr st)
      note lb = loop_body_parts[of py mid msg out st ch i, OF Inr IopubMsg]
      show ?thesis
      proof (cases st)
        case (Continue ps)
        with 1(2) IopubMsg Inr have "drain py mid ch (Suc i) ps = Some r" by simp
        from 1(1)[OF this] lb Continue show ?thesis by auto
      next
        case (Break ps)
        with 1(2) IopubMsg Inr have "r = ps" by simp
        with lb Break show ?thesis by simp
      qed
    qed
  qed
qed

text \<open>Foreign traffic can be exchanged for other foreign traffic without changing the loop's result.\<close>

lemma foreign_loop_body: "foreign mid m \<Longrightarrow> loop_body py mid m out = Inr (Continue out)"
  by (simp add: foreign_def loop_body_def split: sum.splits)

lemma read_step_swap: "foreign_swap mid r r' \<Longrightarrow> read_step py mid out r = read_step py mid out r'"
  by (auto simp: foreign_swap_def read_step_def foreign_loop_body)

lemma drain_read_step:
  "drain py mid ch i out =
     (case read_step py mid out (ch i) of
        None \<Rightarrow> Some out
      | Some (Inl e) \<Rightarrow> Some out
      | Some (Inr (Continue parts)) \<Rightarrow> drain py mid ch (Suc i) parts
      | Some (Inr (Break parts)) \<Rightarrow> Some parts)"
  by (subst drain.simps) (simp add: read_step_def split: iopub_read.splits)

lemma drain_swap_Some:
  assumes "drain py mid ch i out = Some r" and "\<forall>j. foreign_swap mid (ch j) (ch' j)"
  shows "drain py mid ch' i out = Some r"
  using assms
proof (induction py mid ch i out r arbitrary: ch' rule: drain.raw_induct[rotated, consumes 1])
  case (1 drain py mid ch i out r)
  from 1(3) have eq: "read_step py mid out (ch' i) = read_step py mid out (ch i)"
    using read_step_swap[of mid "ch i" "ch' i" py out] by simp
  have body: "(case read_step py mid out (ch i) of
        None \<Rightarrow> Some out
      | Some (Inl e) \<Rightarrow> Some out
      | Some (Inr (Continue parts)) \<Rightarrow> drain py mid ch (Suc i) parts
      | Some (Inr (Break parts)) \<Rightarrow> Some parts) = Some r"
    using 1(2) by (simp add: read_step_def split: iopub_read.splits)
  show ?case
  proof (cases "read_step py mid out (ch i)")
    case None
    with body eq show ?thesis by (subst drain_read_step) simp
  next
    case (Some a)
    show ?thesis
    proof (cases a)
      case (Inl e)
      with Some body eq show ?thesis by (subst drain_read_step) simp
    next
      case (Inr st)
      show ?thesis
      proof (cases st)
        case (Continue parts)
        with Some Inr body have "drain py mid ch (Suc i) parts = Some r" by simp
        from 1(1)[OF this 1(3)] have "Spec2Isabelle.drain py mid ch' (Suc i) parts = Some r" .
        with Some Inr Continue eq show ?thesis by (subst drain_read_step) simp
      next
        case (Break parts)
        with Some Inr body eq show ?thesis by (subst drain_read_step) simp
      qed
    qed
  qed
qed

lemma foreign_swap_sym: "foreign_swap mid r r' \<Longrightarrow> foreign_swap mid r' r"
  by (auto simp: foreign_swap_def)

lemma drain_swap:
  assumes "\<forall>j. foreign_swap mid (ch j) (ch' j)"
  shows "drain py mid ch' i out = drain py mid ch i out"
proof (cases "drain py mid ch i out")
  case (Some r)
  from drain_swap_Some[OF Some assms] Some show ?thesis by simp
next
  case None
  show ?thesis
  proof (cases "drain py mid ch' i out")
    case n: None
    with None show ?thesis by simp
  next
    case (Some r)
    from assms have "\<forall>j. foreign_swap mid (ch' j) (ch j)" using foreign_swap_sym by blast
    from drain_swap_Some[OF Some this] None show ?thesis by simp
  qed
qed

text \<open>On a finite queue, foreign traffic can be taken out without changing the loop's result.\<close>

lemma drain_reindex_Some:
  assumes "drain py mid ch i out = Some r" and "\<forall>j. ch (i + j) = ch' (i' + j)"
  shows "drain py mid ch' i' out = Some r"
  using assms
proof (induction py mid ch i out r arbitrary: ch' i' rule: drain.raw_induct[rotated, consumes 1])
  case (1 drain py mid ch i out r)
  from 1(3) have "ch (i + 0) = ch' (i' + 0)" by blast
  then have eq: "read_step py mid out (ch' i') = read_step py mid out (ch i)" by simp
  from 1(3) have nxt: "\<forall>j. ch (Suc i + j) = ch' (Suc i' + j)"
  proof (intro allI)
    fix j
    from 1(3) have "ch (i + Suc j) = ch' (i' + Suc j)" by blast
    then show "ch (Suc i + j) = ch' (Suc i' + j)" by simp
  qed
  have body: "(case read_step py mid out (ch i) of
        None \<Rightarrow> Some out
      | Some (Inl e) \<Rightarrow> Some out
      | Some (Inr (Continue parts)) \<Rightarrow> drain py mid ch (Suc i) parts
      | Some (Inr (Break parts)) \<Rightarrow> Some parts) = Some r"
    using 1(2) by (simp add: read_step_def split: iopub_read.splits)
  show ?case
  proof (cases "read_step py mid out (ch i)")
    case None
    with body eq show ?thesis by (subst drain_read_step) simp
  next
    case (Some a)
    show ?thesis
    proof (cases a)
      case (Inl e)
      with Some body eq show ?thesis by (subst drain_read_step) simp
    next
      case (Inr st)
      show ?thesis
      proof (cases st)
        case (Continue parts)
        with Some Inr body have "drain py mid ch (Suc i) parts = Some r" by simp
        from 1(1)[OF this nxt] have "Spec2Isabelle.drain py mid ch' (Suc i') parts = Some r" .
        with Some Inr Continue eq show ?thesis by (subst drain_read_step) simp
      next
        case (Break parts)
        with Some Inr body eq show ?thesis by (subst drain_read_step) simp
      qed
    qed
  qed
qed

lemma drain_reindex:
  assumes "\<forall>j. ch (i + j) = ch' (i' + j)"
  shows "drain py mid ch' i' out = drain py mid ch i out"
proof (cases "drain py mid ch i out")
  case (Some r)
  from drain_reindex_Some[OF Some assms] Some show ?thesis by simp
next
  case None
  show ?thesis
  proof (cases "drain py mid ch' i' out")
    case n: None
    with None show ?thesis by simp
  next
    case (Some r)
    from assms have "\<forall>j. ch' (i' + j) = ch (i + j)" by simp
    from drain_reindex_Some[OF Some this] None show ?thesis by simp
  qed
qed

lemma drain_queued_Cons:
  "drain py mid (queued (r # rs)) (Suc 0) out = drain py mid (queued rs) 0 out"
  by (rule drain_reindex) (simp add: queued_def)

lemma drain_queued_step:
  "drain py mid (queued (r # rs)) 0 out =
     (case read_step py mid out r of
        None \<Rightarrow> Some out
      | Some (Inl e) \<Rightarrow> Some out
      | Some (Inr (Continue parts)) \<Rightarrow> drain py mid (queued rs) 0 parts
      | Some (Inr (Break parts)) \<Rightarrow> Some parts)"
  by (subst drain_read_step)
     (simp add: queued_def drain_queued_Cons split: option.splits sum.splits loop_step.splits)

lemma foreign_read_step:
  "foreign_read mid r \<Longrightarrow> read_step py mid out r = Some (Inr (Continue out))"
  by (cases r) (simp_all add: foreign_read_def read_step_def foreign_loop_body)

lemma drain_without_foreign:
  "drain py mid (queued (filter (\<lambda>r. \<not> foreign_read mid r) rs)) 0 out =
   drain py mid (queued rs) 0 out"
proof (induction rs arbitrary: out)
  case Nil
  show ?case by simp
next
  case (Cons r rs)
  show ?case
  proof (cases "foreign_read mid r")
    case True
    with Cons show ?thesis
      by (simp add: drain_queued_step[of py mid r rs] foreign_read_step)
  next
    case False
    with Cons show ?thesis
      by (simp add: drain_queued_step split: option.splits sum.splits loop_step.splits)
  qed
qed

lemma queued_swap:
  "list_all2 (foreign_swap mid) xs ys \<Longrightarrow> foreign_swap mid (queued xs j) (queued ys j)"
  by (auto simp: queued_def list_all2_conv_all_nth foreign_swap_def)

lemma queued_all:
  "\<forall>r\<in>set rs. P r \<Longrightarrow> P (IopubRaises (Raised (lit ''Empty''))) \<Longrightarrow> P (queued rs j)"
  by (simp add: queued_def)

lemmas eval_defs =
  execute_code_def final_report_def reply_status_def subscript_def error_summary_def obj_get_def
  dict_get_def loop_body_def parent_msg_id_def classify_def on_stream_def on_status_def
  on_execute_result_def on_error_def py_strip_def py_isspace_def fmt_def execution_failed_def
  queued_def sample_py_def sample_io_def sample_session_def stream_msg_def idle_msg_def lit_def
  cross_mark_def check_mark_def Let_def

section \<open>Properties of the Execution Coordinator\<close>

text \<open>
  C1: with an open connection and the correlation id \<open>msg_id\<close> that \<open>execute\<close> returned,
  whatever the broadcast channel delivers: when execute_code returns, the parts it has
  collected are all fragments of messages whose parent-header msg_id is \<open>msg_id\<close>, and the
  report is built from the reply and these parts only; exchanging the messages of other
  requests for any other messages of other requests leaves the result of execute_code
  unchanged; and on a channel that holds a finite queue and is silent afterwards, taking
  the messages of other requests out of the queue leaves the result unchanged.
\<close>

theorem execute_code_ignores_foreign_broadcasts:
  assumes "kernel_client s = Some h" and "execute_result io code = Inr msg_id"
  shows "(\<forall>reply report. shell_reply io = Inr reply \<and> execute_code py io code s = Some report \<longrightarrow>
            (\<exists>parts. drain py msg_id (iopub io) 0 [] = Some parts \<and>
               (\<forall>v\<in>set parts. own_fragment py msg_id (iopub io) v) \<and>
               report = final_report py reply parts)) \<and>
         (\<forall>ch'. (\<forall>j. foreign_swap msg_id (iopub io j) (ch' j)) \<longrightarrow>
            execute_code py (io\<lparr>iopub := ch'\<rparr>) code s = execute_code py io code s) \<and>
         (\<forall>rs. iopub io = queued rs \<longrightarrow>
            execute_code py (io\<lparr>iopub := queued (filter (\<lambda>r. \<not> foreign_read msg_id r) rs)\<rparr>) code s =
            execute_code py io code s)"
proof (intro conjI allI impI)
  fix reply report
  assume a: "shell_reply io = Inr reply \<and> execute_code py io code s = Some report"
  with assms obtain parts where p: "drain py msg_id (iopub io) 0 [] = Some parts"
    and r: "report = final_report py reply parts"
    by (auto simp: execute_code_def split: option.splits)
  from drain_parts[OF p] have "\<forall>v\<in>set parts. own_fragment py msg_id (iopub io) v" by simp
  with p r show "\<exists>parts. drain py msg_id (iopub io) 0 [] = Some parts \<and>
               (\<forall>v\<in>set parts. own_fragment py msg_id (iopub io) v) \<and>
               report = final_report py reply parts" by blast
next
  fix ch'
  assume "\<forall>j. foreign_swap msg_id (iopub io j) (ch' j)"
  then have "drain py msg_id ch' 0 [] = drain py msg_id (iopub io) 0 []"
    by (rule drain_swap)
  with assms show "execute_code py (io\<lparr>iopub := ch'\<rparr>) code s = execute_code py io code s"
    by (simp add: execute_code_def split: sum.splits)
next
  fix rs
  assume "iopub io = queued rs"
  with assms
  show "execute_code py (io\<lparr>iopub := queued (filter (\<lambda>r. \<not> foreign_read msg_id r) rs)\<rparr>) code s =
        execute_code py io code s"
    by (simp add: execute_code_def drain_without_foreign split: sum.splits)
qed

theorem execute_code_ignores_foreign_broadcasts_witness:
  "execute_code sample_py
     (sample_io\<lparr>iopub := queued
        [IopubMsg (stream_msg (lit ''stale-7'') (lit ''unrelated output'')),
         IopubMsg (stream_msg (lit ''req-1'') (lit ''hello'' @ [0x0A])),
         IopubMsg (idle_msg (lit ''req-1''))]\<rparr>)
     (lit ''print(1)'') sample_session =
   execute_code sample_py
     (sample_io\<lparr>iopub := queued
        [IopubMsg (idle_msg (lit ''other'')),
         IopubMsg (stream_msg (lit ''req-1'') (lit ''hello'' @ [0x0A])),
         IopubMsg (idle_msg (lit ''req-1''))]\<rparr>)
     (lit ''print(1)'') sample_session \<and>
   execute_code sample_py
     (sample_io\<lparr>iopub := queued
        [IopubMsg (stream_msg (lit ''stale-7'') (lit ''unrelated output'')),
         IopubMsg (stream_msg (lit ''req-1'') (lit ''hello'' @ [0x0A])),
         IopubMsg (idle_msg (lit ''req-1''))]\<rparr>)
     (lit ''print(1)'') sample_session = Some (lit ''hello'') \<and>
   execute_code sample_py
     (sample_io\<lparr>iopub := queued
        [IopubMsg (stream_msg (lit ''req-1'') (lit ''hello'' @ [0x0A])),
         IopubMsg (idle_msg (lit ''req-1''))]\<rparr>)
     (lit ''print(1)'') sample_session = Some (lit ''hello'')"
proof -
  let ?own = "[IopubMsg (stream_msg (lit ''req-1'') (lit ''hello'' @ [0x0A])),
               IopubMsg (idle_msg (lit ''req-1''))]"
  let ?a = "IopubMsg (stream_msg (lit ''stale-7'') (lit ''unrelated output''))"
  let ?b = "IopubMsg (idle_msg (lit ''other''))"
  let ?io = "sample_io\<lparr>iopub := queued (?a # ?own)\<rparr>"
  have c: "kernel_client sample_session = Some 0"
    by (simp add: sample_session_def)
  have e: "execute_result ?io (lit ''print(1)'') = Inr (lit ''req-1'')"
    by (simp add: sample_io_def)
  have "list_all2 (foreign_swap (lit ''req-1'')) (?a # ?own) (?b # ?own)"
    by (simp add: foreign_swap_def foreign_def parent_msg_id_def obj_get_def dict_get_def
        stream_msg_def idle_msg_def lit_def)
  then have sw: "\<forall>j. foreign_swap (lit ''req-1'') (iopub ?io j) (queued (?b # ?own) j)"
    by (simp add: queued_swap)
  from execute_code_ignores_foreign_broadcasts[OF c e, of sample_py] sw
  have 1: "execute_code sample_py (?io\<lparr>iopub := queued (?b # ?own)\<rparr>) (lit ''print(1)'') sample_session =
     execute_code sample_py ?io (lit ''print(1)'') sample_session"
    by blast
  have 2: "execute_code sample_py ?io (lit ''print(1)'') sample_session = Some (lit ''hello'')"
    by (simp add: eval_defs drain.simps)
  have q: "iopub ?io = queued (?a # ?own)" by simp
  have f: "filter (\<lambda>r. \<not> foreign_read (lit ''req-1'') r) (?a # ?own) = ?own"
    by (simp add: foreign_read_def foreign_def parent_msg_id_def obj_get_def dict_get_def
        stream_msg_def idle_msg_def lit_def)
  from execute_code_ignores_foreign_broadcasts[OF c e, of sample_py] q
  have "execute_code sample_py
      (?io\<lparr>iopub := queued (filter (\<lambda>r. \<not> foreign_read (lit ''req-1'') r) (?a # ?own))\<rparr>)
      (lit ''print(1)'') sample_session =
     execute_code sample_py ?io (lit ''print(1)'') sample_session"
    by blast
  with f 2 have 3: "execute_code sample_py (?io\<lparr>iopub := queued ?own\<rparr>) (lit ''print(1)'') sample_session =
     Some (lit ''hello'')"
    by simp
  from 1 2 3 show ?thesis by simp
qed

lemma final_report_error:
  assumes "map_of reply (lit ''content'') = Some (JObj error_info)"
    and "map_of error_info (lit ''status'') = Some (JStr (lit ''error''))"
  shows "final_report py reply parts =
     cross_mark @ lit '' '' @ fmt py (dict_get error_info (lit ''ename'') (JStr (lit ''Error''))) @
     lit '': '' @ fmt py (dict_get error_info (lit ''evalue'') (JStr []))"
  using assms
  by (simp add: final_report_def reply_status_def subscript_def error_summary_def obj_get_def)

text \<open>
  C2: when the shell reply has status 'error', the report of execute_code is the reply's
  own error summary, the failure mark followed by its ename and evalue (with the defaults
  'Error' and the empty string), whatever the drain loop has collected; and execute_code
  does return it as soon as some read makes the drain loop end.
\<close>

theorem reply_error_is_authoritative:
  assumes "kernel_client s = Some h" and "execute_result io code = Inr msg_id"
    and "shell_reply io = Inr reply"
    and "map_of reply (lit ''content'') = Some (JObj error_info)"
    and "map_of error_info (lit ''status'') = Some (JStr (lit ''error''))"
  shows "(\<forall>report. execute_code py io code s = Some report \<longrightarrow>
            report = cross_mark @ lit '' '' @
              fmt py (dict_get error_info (lit ''ename'') (JStr (lit ''Error''))) @ lit '': '' @
              fmt py (dict_get error_info (lit ''evalue'') (JStr []))) \<and>
         (\<forall>n. leaves_loop py msg_id (iopub io n) \<longrightarrow>
            execute_code py io code s = Some (cross_mark @ lit '' '' @
              fmt py (dict_get error_info (lit ''ename'') (JStr (lit ''Error''))) @ lit '': '' @
              fmt py (dict_get error_info (lit ''evalue'') (JStr []))))"
proof (intro conjI allI impI)
  fix report
  assume "execute_code py io code s = Some report"
  with assms(1-3) obtain parts where "report = final_report py reply parts"
    by (auto simp: execute_code_def split: option.splits)
  with final_report_error[OF assms(4,5)] show "report = cross_mark @ lit '' '' @
              fmt py (dict_get error_info (lit ''ename'') (JStr (lit ''Error''))) @ lit '': '' @
              fmt py (dict_get error_info (lit ''evalue'') (JStr []))" by simp
next
  fix n
  assume "leaves_loop py msg_id (iopub io n)"
  then obtain parts where "drain py msg_id (iopub io) 0 [] = Some parts"
    using drain_returns by blast
  with assms(1-3) final_report_error[OF assms(4,5)]
  show "execute_code py io code s = Some (cross_mark @ lit '' '' @
              fmt py (dict_get error_info (lit ''ename'') (JStr (lit ''Error''))) @ lit '': '' @
              fmt py (dict_get error_info (lit ''evalue'') (JStr [])))"
    by (simp add: execute_code_def)
qed

theorem reply_error_is_authoritative_witness:
  "execute_code sample_py
     (sample_io\<lparr>shell_reply := Inr [(lit ''content'',
          JObj [(lit ''status'', JStr (lit ''error'')),
                (lit ''ename'', JStr (lit ''ZeroDivisionError'')),
                (lit ''evalue'', JStr (lit ''division by zero''))])],
        iopub := queued
          [IopubMsg (stream_msg (lit ''req-1'') (lit ''partial output'')),
           IopubMsg (idle_msg (lit ''req-1''))]\<rparr>)
     (lit ''1/0'') sample_session =
   Some (cross_mark @ lit '' ZeroDivisionError: division by zero'')"
proof -
  let ?info = "[(lit ''status'', JStr (lit ''error'')),
                (lit ''ename'', JStr (lit ''ZeroDivisionError'')),
                (lit ''evalue'', JStr (lit ''division by zero''))]"
  let ?reply = "[(lit ''content'', JObj ?info)]"
  let ?io = "sample_io\<lparr>shell_reply := Inr ?reply,
        iopub := queued
          [IopubMsg (stream_msg (lit ''req-1'') (lit ''partial output'')),
           IopubMsg (idle_msg (lit ''req-1''))]\<rparr>"
  have c: "kernel_client sample_session = Some 0"
    by (simp add: sample_session_def)
  have e: "execute_result ?io (lit ''1/0'') = Inr (lit ''req-1'')"
    by (simp add: sample_io_def)
  have r: "shell_reply ?io = Inr ?reply" by simp
  have m1: "map_of ?reply (lit ''content'') = Some (JObj ?info)" by simp
  have m2: "map_of ?info (lit ''status'') = Some (JStr (lit ''error''))" by simp
  have l: "leaves_loop sample_py (lit ''req-1'') (iopub ?io 2)"
    by (simp add: leaves_loop_def queued_def)
  from reply_error_is_authoritative[OF c e r m1 m2, of sample_py] l
  have "execute_code sample_py ?io (lit ''1/0'') sample_session =
    Some (cross_mark @ lit '' '' @
              fmt sample_py (dict_get ?info (lit ''ename'') (JStr (lit ''Error''))) @ lit '': '' @
              fmt sample_py (dict_get ?info (lit ''evalue'') (JStr [])))" by blast
  then show ?thesis by (simp add: dict_get_def fmt_def lit_def)
qed

lemma silent_classify: "silent_msg msg \<Longrightarrow> classify py msg [] \<noteq> Inr (Continue [v])"
  by (auto simp: silent_msg_def classify_def Let_def on_stream_def on_status_def lit_def
      split: sum.splits json.splits if_splits)

lemma drain_silent:
  assumes "drain py mid ch 0 [] = Some parts"
    and "\<forall>j msg. ch j = IopubMsg msg \<and> parent_msg_id msg = Inr (JStr mid) \<longrightarrow> silent_msg msg"
  shows "parts = []"
proof (rule ccontr)
  assume "parts \<noteq> []"
  then obtain v where "v \<in> set parts" by (cases parts) auto
  with drain_parts[OF assms(1)] have "own_fragment py mid ch v" by simp
  then obtain j msg where "ch j = IopubMsg msg" "parent_msg_id msg = Inr (JStr mid)"
    "classify py msg [] = Inr (Continue [v])" unfolding own_fragment_def by blast
  with assms(2) silent_classify[of msg py v] show False by blast
qed

text \<open>
  C10: when the shell reply has a status other than 'error' and every broadcast message of
  this request is a status message or a stream message whose text is empty after
  stripping, the report of execute_code is the "Code executed successfully (no output)"
  string; and execute_code does return it as soon as some read makes the drain loop end.
\<close>

theorem whitespace_only_output_is_no_output:
  assumes "kernel_client s = Some h" and "execute_result io code = Inr msg_id"
    and "shell_reply io = Inr reply"
    and "reply_status reply = Inr status" and "status \<noteq> JStr (lit ''error'')"
    and "\<forall>j msg. iopub io j = IopubMsg msg \<and> parent_msg_id msg = Inr (JStr msg_id) \<longrightarrow> silent_msg msg"
  shows "(\<forall>report. execute_code py io code s = Some report \<longrightarrow>
            report = check_mark @ lit '' Code executed successfully (no output)'') \<and>
         (\<forall>n. leaves_loop py msg_id (iopub io n) \<longrightarrow>
            execute_code py io code s = Some (check_mark @ lit '' Code executed successfully (no output)''))"
proof -
  have fr: "final_report py reply [] = check_mark @ lit '' Code executed successfully (no output)''"
    using assms(4,5) by (simp add: final_report_def)
  show ?thesis
  proof (intro conjI allI impI)
    fix report
    assume "execute_code py io code s = Some report"
    with assms(1-3) obtain parts where p: "drain py msg_id (iopub io) 0 [] = Some parts"
      and r: "report = final_report py reply parts"
      by (auto simp: execute_code_def split: option.splits)
    from drain_silent[OF p assms(6)] r fr
    show "report = check_mark @ lit '' Code executed successfully (no output)''" by simp
  next
    fix n
    assume "leaves_loop py msg_id (iopub io n)"
    then obtain parts where p: "drain py msg_id (iopub io) 0 [] = Some parts"
      using drain_returns by blast
    from drain_silent[OF p assms(6)] p assms(1-3) fr
    show "execute_code py io code s = Some (check_mark @ lit '' Code executed successfully (no output)'')"
      by (simp add: execute_code_def)
  qed
qed

theorem whitespace_only_output_is_no_output_witness:
  "execute_code sample_py
     (sample_io\<lparr>iopub := queued
        [IopubMsg (stream_msg (lit ''req-1'') [0x20, 0x0A]),
         IopubMsg (stream_msg (lit ''stale-7'') (lit ''unrelated output'')),
         IopubMsg (idle_msg (lit ''req-1''))]\<rparr>)
     (lit ''x = 1'') sample_session =
   Some (check_mark @ lit '' Code executed successfully (no output)'')"
proof -
  let ?q = "[IopubMsg (stream_msg (lit ''req-1'') [0x20, 0x0A]),
         IopubMsg (stream_msg (lit ''stale-7'') (lit ''unrelated output'')),
         IopubMsg (idle_msg (lit ''req-1''))]"
  let ?io = "sample_io\<lparr>iopub := queued ?q\<rparr>"
  let ?reply = "[(lit ''content'', JObj [(lit ''status'', JStr (lit ''ok''))])]"
  have c: "kernel_client sample_session = Some 0"
    by (simp add: sample_session_def)
  have e: "execute_result ?io (lit ''x = 1'') = Inr (lit ''req-1'')"
    by (simp add: sample_io_def)
  have r: "shell_reply ?io = Inr ?reply" by (simp add: sample_io_def)
  have st: "reply_status ?reply = Inr (JStr (lit ''ok''))"
    by (simp add: reply_status_def subscript_def)
  have ne: "JStr (lit ''ok'') \<noteq> JStr (lit ''error'')" by (simp add: lit_def)
  have "\<And>j. \<forall>msg. queued ?q j = IopubMsg msg \<and> parent_msg_id msg = Inr (JStr (lit ''req-1'')) \<longrightarrow> silent_msg msg"
    by (rule queued_all[where P = "\<lambda>r. \<forall>msg. r = IopubMsg msg \<and> parent_msg_id msg = Inr (JStr (lit ''req-1'')) \<longrightarrow> silent_msg msg"])
       (simp_all add: silent_msg_def parent_msg_id_def obj_get_def dict_get_def stream_msg_def
        idle_msg_def py_strip_def py_isspace_def lit_def)
  then have q: "\<forall>j msg. iopub ?io j = IopubMsg msg \<and> parent_msg_id msg = Inr (JStr (lit ''req-1'')) \<longrightarrow> silent_msg msg"
    by auto
  have l: "leaves_loop sample_py (lit ''req-1'') (iopub ?io 3)"
    by (simp add: leaves_loop_def queued_def)
  from whitespace_only_output_is_no_output[OF c e r st ne q, of sample_py] l
  show ?thesis by blast
qed

section \<open>Properties of the Lifecycle Controller\<close>

lemmas world_defs = record_call_def new_client_def start_channels_def stop_channels_def

lemmas sample_defs =
  sample_py_def sample_env_def sample_io_def sample_session_def sample_world_def
  empty_session_def fresh_world_def resolve_connection_file_def str_truthy_def
  package_default_def lit_def

lemma disconnect_kernel_process:
  "kernel_process (fst (snd (disconnect_kernel py io sw))) = kernel_process (fst sw)"
  by (cases sw; cases "kernel_client (fst sw)"; cases "stop_channels_result io")
     (simp_all add: disconnect_kernel_def)

lemma disconnect_repeatedly_process:
  "kernel_process (fst (disconnect_repeatedly py ios sw)) = kernel_process (fst sw)"
  by (induction ios arbitrary: sw) (simp_all add: disconnect_kernel_process)

text \<open>
  C9: disconnect_kernel changes at most the connection slot of the Session State: the
  session it leaves is the one it found with kernel_client updated, the tracked process
  handle is the same after one disconnect, and the same after any number of disconnects.
\<close>

theorem disconnect_kernel_keeps_process:
  "fst (snd (disconnect_kernel py io (s, w))) =
     s\<lparr>kernel_client := kernel_client (fst (snd (disconnect_kernel py io (s, w))))\<rparr> \<and>
   kernel_process (fst (snd (disconnect_kernel py io (s, w)))) = kernel_process s \<and>
   kernel_process (fst (disconnect_repeatedly py ios (s, w))) = kernel_process s"
proof -
  have "fst (snd (disconnect_kernel py io (s, w))) =
     s\<lparr>kernel_client := kernel_client (fst (snd (disconnect_kernel py io (s, w))))\<rparr>"
    by (cases "kernel_client s"; cases "stop_channels_result io")
       (simp_all add: disconnect_kernel_def)
  with disconnect_kernel_process[of py io "(s, w)"] disconnect_repeatedly_process[of py ios "(s, w)"]
  show ?thesis by simp
qed

theorem disconnect_kernel_keeps_process_witness:
  "kernel_process (fst (disconnect_repeatedly sample_py
      [sample_io\<lparr>stop_channels_result := Some (Raised (lit ''socket error''))\<rparr>, sample_io, sample_io]
      (sample_session, sample_world))) = Some \<lparr>pid = 4242\<rparr>"
  using disconnect_kernel_keeps_process[of sample_py sample_io sample_session sample_world
      "[sample_io\<lparr>stop_channels_result := Some (Raised (lit ''socket error''))\<rparr>, sample_io, sample_io]"]
  by (simp add: sample_session_def)

text \<open>
  C7, as amended: with no Connection Handle present disconnect_kernel is a no-op that
  returns the success report. With a handle present whose stop_channels returns, it returns
  the success report and empties the connection slot, and a second call is a no-op that
  returns the success report again, so the state after two calls is the state after one.
  With a handle present whose stop_channels raises, it returns the
  "Error during disconnection" report and leaves the Session State as it was.
\<close>

theorem disconnect_kernel_idempotent_when_stop_returns:
  "(kernel_client s = None \<longrightarrow>
      disconnect_kernel py io (s, w) = (check_mark @ lit '' Disconnected from kernel'', s, w)) \<and>
   (kernel_client s = None \<or> stop_channels_result io = None \<longrightarrow>
      fst (disconnect_kernel py io (s, w)) = check_mark @ lit '' Disconnected from kernel'' \<and>
      kernel_client (fst (snd (disconnect_kernel py io (s, w)))) = None \<and>
      disconnect_kernel py io' (snd (disconnect_kernel py io (s, w))) =
        (check_mark @ lit '' Disconnected from kernel'', snd (disconnect_kernel py io (s, w)))) \<and>
   (kernel_client s = Some h \<and> stop_channels_result io = Some e \<longrightarrow>
      fst (disconnect_kernel py io (s, w)) = cross_mark @ lit '' Error during disconnection: '' @ exc_str py e \<and>
      fst (snd (disconnect_kernel py io (s, w))) = s)"
  by (cases "kernel_client s"; cases "stop_channels_result io") (simp_all add: disconnect_kernel_def)


theorem disconnect_kernel_idempotent_when_stop_returns_witness:
  "disconnect_kernel sample_py sample_io (empty_session, fresh_world) =
     (check_mark @ lit '' Disconnected from kernel'', empty_session, fresh_world) \<and>
   kernel_client (fst (snd (disconnect_kernel sample_py sample_io (sample_session, sample_world)))) = None \<and>
   disconnect_kernel sample_py sample_io
     (snd (disconnect_kernel sample_py sample_io (sample_session, sample_world))) =
     (check_mark @ lit '' Disconnected from kernel'',
      snd (disconnect_kernel sample_py sample_io (sample_session, sample_world))) \<and>
   disconnect_kernel sample_py
     (sample_io\<lparr>stop_channels_result := Some (Raised (lit ''socket error''))\<rparr>)
     (sample_session, sample_world) =
     (cross_mark @ lit '' Error during disconnection: socket error'', sample_session,
      sample_world\<lparr>calls := calls sample_world @ [StopChannels 0]\<rparr>)"
proof -
  have a: "kernel_client empty_session = None" by (simp add: empty_session_def)
  have b: "stop_channels_result sample_io = None" by (simp add: sample_io_def)
  have c: "kernel_client sample_session = Some 0" by (simp add: sample_session_def)
  let ?bad = "sample_io\<lparr>stop_channels_result := Some (Raised (lit ''socket error''))\<rparr>"
  have d: "stop_channels_result ?bad = Some (Raised (lit ''socket error''))" by simp
  from a disconnect_kernel_idempotent_when_stop_returns[of empty_session sample_py sample_io fresh_world]
  have 1: "disconnect_kernel sample_py sample_io (empty_session, fresh_world) =
     (check_mark @ lit '' Disconnected from kernel'', empty_session, fresh_world)" by blast
  from b disconnect_kernel_idempotent_when_stop_returns[of sample_session sample_py sample_io sample_world sample_io]
  have 2: "kernel_client (fst (snd (disconnect_kernel sample_py sample_io (sample_session, sample_world)))) = None \<and>
   disconnect_kernel sample_py sample_io
     (snd (disconnect_kernel sample_py sample_io (sample_session, sample_world))) =
     (check_mark @ lit '' Disconnected from kernel'',
      snd (disconnect_kernel sample_py sample_io (sample_session, sample_world)))" by blast
  from c d disconnect_kernel_idempotent_when_stop_returns[of sample_session sample_py ?bad sample_world _ 0 "Raised (lit ''socket error'')"]
  have "fst (disconnect_kernel sample_py ?bad (sample_session, sample_world)) =
      cross_mark @ lit '' Error during disconnection: '' @ exc_str sample_py (Raised (lit ''socket error'')) \<and>
      fst (snd (disconnect_kernel sample_py ?bad (sample_session, sample_world))) = sample_session" by blast
  then have 3: "disconnect_kernel sample_py ?bad (sample_session, sample_world) =
     (cross_mark @ lit '' Error during disconnection: socket error'', sample_session,
      sample_world\<lparr>calls := calls sample_world @ [StopChannels 0]\<rparr>)"
    by (simp add: disconnect_kernel_def world_defs sample_defs)
  from 1 2 3 show ?thesis by simp
qed

text \<open>
  The claim C7 as stated fails: when stop_channels raises in the first call and returns in
  the second, the connection slot still holds the handle after one call and is empty
  after two.
\<close>

theorem disconnect_twice_counterexample:
  "kernel_client (fst (snd (disconnect_kernel sample_py
       (sample_io\<lparr>stop_channels_result := Some (Raised (lit ''socket error''))\<rparr>)
       (sample_session, sample_world)))) = Some 0 \<and>
   kernel_client (fst (snd (disconnect_kernel sample_py sample_io
       (snd (disconnect_kernel sample_py
          (sample_io\<lparr>stop_channels_result := Some (Raised (lit ''socket error''))\<rparr>)
          (sample_session, sample_world)))))) = None"
  by (simp add: disconnect_kernel_def sample_io_def sample_session_def sample_world_def)

text \<open>
  C4, as amended: when shutdown_kernel is called with a Connection Handle open and a tracked
  process that has already exited, it returns a report and does not raise: "Kernel shutdown
  gracefully via Jupyter protocol" when the protocol-level shutdown request returns,
  "Kernel connections closed (process may still be running)" when that request raises. No
  signal is sent to the process. Afterwards the connection slot is empty when stop_channels
  returns (and unchanged when it raises), and the process slot still holds the handle of the
  exited process: shutdown_kernel never clears kernel_process.
\<close>

theorem shutdown_with_exited_process:
  assumes "kernel_client s = Some h" and "kernel_process s = Some p"
    and "poll_result io = Inr (Some returncode)"
  shows "shutdown_kernel py is_windows io (s, w) =
     (if shutdown_result io = None
      then check_mark @ lit '' Kernel shutdown gracefully via Jupyter protocol''
      else check_mark @ lit '' Kernel connections closed (process may still be running)'',
      s\<lparr>kernel_client := (if stop_channels_result io = None then None else Some h)\<rparr>,
      w\<lparr>live := (if stop_channels_result io = None then live w - {h} else live w),
        calls := calls w @ ShutdownRequest h #
          (if shutdown_result io = None then [] else [Poll (pid p)]) @ [StopChannels h]\<rparr>) \<and>
     kernel_process (fst (snd (shutdown_kernel py is_windows io (s, w)))) = Some p"
  using assms
  by (cases "shutdown_result io"; cases "stop_channels_result io")
     (simp_all add: shutdown_kernel_def forceful_shutdown_def close_connections_def
        disconnect_kernel_def world_defs Let_def)

theorem shutdown_with_exited_process_witness:
  "shutdown_kernel sample_py True
     (sample_io\<lparr>shutdown_result := Some (Raised (lit ''control channel closed'')),
                poll_result := Inr (Some 1),
                stop_channels_result := Some (Raised (lit ''socket error''))\<rparr>)
     (sample_session, sample_world) =
   (check_mark @ lit '' Kernel connections closed (process may still be running)'',
    sample_session,
    sample_world\<lparr>calls := calls sample_world @ [ShutdownRequest 0, Poll 4242, StopChannels 0]\<rparr>)"
proof -
  let ?io = "sample_io\<lparr>shutdown_result := Some (Raised (lit ''control channel closed'')),
                poll_result := Inr (Some 1),
                stop_channels_result := Some (Raised (lit ''socket error''))\<rparr>"
  have h1: "kernel_client sample_session = Some 0" by (simp add: sample_session_def)
  have h2: "kernel_process sample_session = Some \<lparr>pid = 4242\<rparr>" by (simp add: sample_session_def)
  have h3: "poll_result ?io = Inr (Some 1)" by simp
  from shutdown_with_exited_process[OF h1 h2 h3, of sample_py True sample_world]
  show ?thesis by (simp add: sample_session_def)
qed

text \<open>
  The claim C4 as stated fails: after shutdown_kernel the process slot still holds the
  exited process, and when the shutdown request returns the report is not a
  "connections closed" report.
\<close>

theorem shutdown_with_exited_process_counterexample:
  "shutdown_kernel sample_py False
     (sample_io\<lparr>shutdown_result := Some (Raised (lit ''control channel closed'')),
                poll_result := Inr (Some 0)\<rparr>)
     (sample_session, sample_world) =
   (check_mark @ lit '' Kernel connections closed (process may still be running)'',
    \<lparr>kernel_client = None, kernel_process = Some \<lparr>pid = 4242\<rparr>\<rparr>,
    sample_world\<lparr>live := {}, calls := calls sample_world @ [ShutdownRequest 0, Poll 4242, StopChannels 0]\<rparr>) \<and>
   fst (shutdown_kernel sample_py False (sample_io\<lparr>poll_result := Inr (Some 0)\<rparr>)
     (sample_session, sample_world)) =
   check_mark @ lit '' Kernel shutdown gracefully via Jupyter protocol''"
  by (simp add: shutdown_kernel_def forceful_shutdown_def close_connections_def
        disconnect_kernel_def world_defs Let_def sample_io_def sample_session_def sample_world_def)

section \<open>Properties of the Session Connector\<close>

text \<open>
  C8: when the resolved descriptor file does not exist, or exists and cannot be read as
  JSON, connect_to_kernel returns a failure report and changes neither the Session State
  nor the world: no call is made on the stored handle, which stays as open as it was.
\<close>

theorem failed_descriptor_load_keeps_connection:
  assumes "expanduser io (resolve_connection_file env connection_file) = Inr connection_path"
  shows "(\<not> path_exists io connection_path \<longrightarrow>
            connect_to_kernel py env is_windows io connection_file (s, w) =
              (cross_mark @ lit '' Connection file not found: '' @ connection_path, s, w)) \<and>
         (\<forall>e. path_exists io connection_path \<and> read_json io connection_path = Inl e \<longrightarrow>
            connect_to_kernel py env is_windows io connection_file (s, w) =
              (cross_mark @ lit '' Failed to connect: '' @ exc_str py e, s, w))"
  using assms by (simp add: connect_to_kernel_def connect_failed_def)

theorem failed_descriptor_load_keeps_connection_witness:
  "connect_to_kernel sample_py sample_env False (sample_io\<lparr>path_exists := (\<lambda>p. False)\<rparr>)
     (Some (lit ''/tmp/missing.json'')) (sample_session, sample_world) =
     (cross_mark @ lit '' Connection file not found: /tmp/missing.json'', sample_session, sample_world) \<and>
   connect_to_kernel sample_py sample_env False
     (sample_io\<lparr>read_json := (\<lambda>p. Inl (Raised (lit ''Expecting value: line 1 column 1 (char 0)'')))\<rparr>)
     (Some (lit ''/tmp/broken.json'')) (sample_session, sample_world) =
     (cross_mark @ lit '' Failed to connect: Expecting value: line 1 column 1 (char 0)'',
      sample_session, sample_world)"
proof -
  let ?io1 = "sample_io\<lparr>path_exists := (\<lambda>p. False)\<rparr>"
  let ?io2 = "sample_io\<lparr>read_json := (\<lambda>p. Inl (Raised (lit ''Expecting value: line 1 column 1 (char 0)'')))\<rparr>"
  have e1: "expanduser ?io1 (resolve_connection_file sample_env (Some (lit ''/tmp/missing.json''))) =
      Inr (lit ''/tmp/missing.json'')"
    by (simp add: sample_defs)
  have e2: "expanduser ?io2 (resolve_connection_file sample_env (Some (lit ''/tmp/broken.json''))) =
      Inr (lit ''/tmp/broken.json'')"
    by (simp add: sample_defs)
  have n1: "\<not> path_exists ?io1 (lit ''/tmp/missing.json'')" by simp
  have n2: "path_exists ?io2 (lit ''/tmp/broken.json'') \<and>
      read_json ?io2 (lit ''/tmp/broken.json'') = Inl (Raised (lit ''Expecting value: line 1 column 1 (char 0)''))"
    by (simp add: sample_io_def)
  from n1 failed_descriptor_load_keeps_connection[OF e1, of sample_py False sample_session sample_world]
  have 1: "connect_to_kernel sample_py sample_env False ?io1
     (Some (lit ''/tmp/missing.json'')) (sample_session, sample_world) =
     (cross_mark @ lit '' Connection file not found: '' @ lit ''/tmp/missing.json'', sample_session, sample_world)"
    by blast
  from n2 failed_descriptor_load_keeps_connection[OF e2, of sample_py False sample_session sample_world]
  have 2: "connect_to_kernel sample_py sample_env False ?io2
     (Some (lit ''/tmp/broken.json'')) (sample_session, sample_world) =
     (cross_mark @ lit '' Failed to connect: '' @
        exc_str sample_py (Raised (lit ''Expecting value: line 1 column 1 (char 0)'')),
      sample_session, sample_world)"
    by blast
  from 1 2 show ?thesis by (simp add: sample_py_def lit_def)
qed

text \<open>
  C3, as amended: when connect_to_kernel reaches the readiness wait and the wait times out
  or fails, it returns the "Failed to connect to kernel" report with the text of the
  exception, and the connection slot holds the newly created handle, whose channels have
  been started and not stopped; the channels of a prior handle have been stopped.
\<close>

theorem failed_readiness_wait_keeps_new_handle:
  assumes "expanduser io (resolve_connection_file env connection_file) = Inr connection_path"
    and "path_exists io connection_path"
    and "read_json io connection_path = Inr connection_info"
    and "kernel_client s = None \<or> stop_channels_result io = None"
    and "load_connection_info_result io = None"
    and "start_channels_result io = None"
    and "wait_for_ready_result io = Some e"
  shows "\<exists>w'. connect_to_kernel py env is_windows io connection_file (s, w) =
           (cross_mark @ lit '' Failed to connect to kernel: '' @ exc_str py e,
            s\<lparr>kernel_client := Some (next_handle w)\<rparr>, w') \<and>
           next_handle w \<in> live w' \<and>
           (\<forall>old. kernel_client s = Some old \<and> old \<noteq> next_handle w \<longrightarrow> old \<notin> live w')"
  using assms
  by (cases "kernel_client s")
     (auto simp: connect_to_kernel_def open_connection_def close_existing_def world_defs Let_def)

theorem failed_readiness_wait_keeps_new_handle_witness:
  "fst (connect_to_kernel sample_py sample_env False
          (sample_io\<lparr>wait_for_ready_result := Some (Raised (lit ''Kernel did not respond in 5 seconds''))\<rparr>)
          None (sample_session, sample_world)) =
     cross_mark @ lit '' Failed to connect to kernel: Kernel did not respond in 5 seconds'' \<and>
   fst (snd (connect_to_kernel sample_py sample_env False
          (sample_io\<lparr>wait_for_ready_result := Some (Raised (lit ''Kernel did not respond in 5 seconds''))\<rparr>)
          None (sample_session, sample_world))) =
     \<lparr>kernel_client = Some 1, kernel_process = Some \<lparr>pid = 4242\<rparr>\<rparr> \<and>
   1 \<in> live (snd (snd (connect_to_kernel sample_py sample_env False
          (sample_io\<lparr>wait_for_ready_result := Some (Raised (lit ''Kernel did not respond in 5 seconds''))\<rparr>)
          None (sample_session, sample_world)))) \<and>
   0 \<notin> live (snd (snd (connect_to_kernel sample_py sample_env False
          (sample_io\<lparr>wait_for_ready_result := Some (Raised (lit ''Kernel did not respond in 5 seconds''))\<rparr>)
          None (sample_session, sample_world))))"
proof -
  let ?e = "Raised (lit ''Kernel did not respond in 5 seconds'')"
  let ?io = "sample_io\<lparr>wait_for_ready_result := Some ?e\<rparr>"
  have h1: "expanduser ?io (resolve_connection_file sample_env None) = Inr (lit ''/pkg/default_connection.json'')"
    by (simp add: sample_defs)
  have h2: "path_exists ?io (lit ''/pkg/default_connection.json'')" by (simp add: sample_io_def)
  have h3: "read_json ?io (lit ''/pkg/default_connection.json'') =
      Inr (JObj [(lit ''ip'', JStr (lit ''127.0.0.1'')), (lit ''shell_port'', JInt 5555),
                 (lit ''key'', JStr (lit ''0123456789abcdef''))])"
    by (simp add: sample_io_def)
  have h4: "kernel_client sample_session = None \<or> stop_channels_result ?io = None"
    by (simp add: sample_io_def)
  have h5: "load_connection_info_result ?io = None" by (simp add: sample_io_def)
  have h6: "start_channels_result ?io = None" by (simp add: sample_io_def)
  have h7: "wait_for_ready_result ?io = Some ?e" by simp
  from failed_readiness_wait_keeps_new_handle[OF h1 h2 h3 h4 h5 h6 h7, of sample_py False sample_world]
  obtain w' where c: "connect_to_kernel sample_py sample_env False ?io None (sample_session, sample_world) =
           (cross_mark @ lit '' Failed to connect to kernel: '' @ exc_str sample_py ?e,
            sample_session\<lparr>kernel_client := Some (next_handle sample_world)\<rparr>, w')"
    and l: "next_handle sample_world \<in> live w'"
    and o: "\<forall>old. kernel_client sample_session = Some old \<and> old \<noteq> next_handle sample_world \<longrightarrow> old \<notin> live w'"
    by blast
  have "kernel_client sample_session = Some 0 \<and> 0 \<noteq> next_handle sample_world"
    by (simp add: sample_session_def sample_world_def)
  with o have "0 \<notin> live w'" by blast
  with c l show ?thesis
    by (simp add: sample_py_def sample_session_def sample_world_def lit_def)
qed

text \<open>
  The claim C3 as stated fails: after a failed readiness wait on an empty Session State
  the connection slot is not empty, it holds the new handle with its channels started.
\<close>

theorem failed_readiness_wait_counterexample:
  "fst (connect_to_kernel sample_py sample_env False
          (sample_io\<lparr>wait_for_ready_result := Some (Raised (lit ''Kernel did not respond in 5 seconds''))\<rparr>)
          None (empty_session, fresh_world)) =
     cross_mark @ lit '' Failed to connect to kernel: Kernel did not respond in 5 seconds'' \<and>
   kernel_client (fst (snd (connect_to_kernel sample_py sample_env False
          (sample_io\<lparr>wait_for_ready_result := Some (Raised (lit ''Kernel did not respond in 5 seconds''))\<rparr>)
          None (empty_session, fresh_world)))) = Some 0 \<and>
   live (snd (snd (connect_to_kernel sample_py sample_env False
          (sample_io\<lparr>wait_for_ready_result := Some (Raised (lit ''Kernel did not respond in 5 seconds''))\<rparr>)
          None (empty_session, fresh_world)))) = {0}"
  by (simp add: connect_to_kernel_def open_connection_def close_existing_def world_defs Let_def
      resolve_connection_file_def str_truthy_def package_default_def lit_def
      sample_py_def sample_env_def sample_io_def empty_session_def fresh_world_def)

lemma disconnect_kernel_one_open:
  "at_most_one_open sw \<Longrightarrow> at_most_one_open (snd (disconnect_kernel py io sw))"
  by (cases sw)
     (auto simp: at_most_one_open_def disconnect_kernel_def world_defs split: option.splits)

lemma open_connection_one_open:
  "at_most_one_open sw \<Longrightarrow>
   at_most_one_open (snd (open_connection py is_windows io connection_info connection_path sw))"
  by (cases sw)
     (auto simp: at_most_one_open_def open_connection_def close_existing_def world_defs Let_def
        split: option.splits sum.splits)

lemma connect_to_kernel_one_open:
  "at_most_one_open sw \<Longrightarrow>
   at_most_one_open (snd (connect_to_kernel py env is_windows io connection_file sw))"
  using open_connection_one_open[of sw py is_windows io]
  by (cases sw) (auto simp: connect_to_kernel_def Let_def split: sum.splits)

lemma close_connections_one_open:
  "at_most_one_open sw \<Longrightarrow> at_most_one_open (snd (close_connections py io report sw))"
  using disconnect_kernel_one_open[of sw py io]
  by (cases "disconnect_kernel py io sw") (simp add: close_connections_def)

lemma record_call_one_open:
  "at_most_one_open (s, w) \<Longrightarrow> at_most_one_open (s, record_call ev w)"
  by (simp add: at_most_one_open_def record_call_def)

lemma terminate_process_one_open:
  "at_most_one_open (s, w) \<Longrightarrow> terminate_process io p w = (r, w') \<Longrightarrow> at_most_one_open (s, w')"
  by (auto simp: terminate_process_def Let_def record_call_def at_most_one_open_def
      split: option.splits py_exc.splits)

lemma forceful_shutdown_one_open:
  assumes "at_most_one_open (s, w)"
  shows "at_most_one_open (snd (forceful_shutdown py is_windows io (s, w)))"
proof (cases "kernel_process s")
  case None
  with assms show ?thesis
    by (simp add: forceful_shutdown_def close_connections_one_open)
next
  case (Some p)
  from assms have b: "at_most_one_open (s, record_call (Poll (pid p)) w)"
    by (rule record_call_one_open)
  show ?thesis
  proof (cases "poll_result io")
    case (Inl e)
    with Some b show ?thesis
      by (simp add: forceful_shutdown_def Let_def close_connections_one_open)
  next
    case (Inr rc)
    show ?thesis
    proof (cases rc)
      case (Some returncode)
      with \<open>kernel_process s = Some p\<close> Inr b show ?thesis
        by (simp add: forceful_shutdown_def Let_def close_connections_one_open)
    next
      case None
      obtain r w' where t: "terminate_process io p (record_call (Poll (pid p)) w) = (r, w')"
        by (cases "terminate_process io p (record_call (Poll (pid p)) w)")
      from terminate_process_one_open[OF b t] have "at_most_one_open (s, w')" .
      with \<open>kernel_process s = Some p\<close> Inr None t show ?thesis
        by (cases r) (simp_all add: forceful_shutdown_def Let_def close_connections_one_open)
    qed
  qed
qed

lemma shutdown_kernel_one_open:
  "at_most_one_open sw \<Longrightarrow> at_most_one_open (snd (shutdown_kernel py is_windows io sw))"
proof (cases sw)
  case (Pair s w)
  assume a: "at_most_one_open sw"
  show ?thesis
  proof (cases "kernel_client s")
    case None
    with a Pair show ?thesis by (simp add: shutdown_kernel_def)
  next
    case (Some h)
    from a Pair have b: "at_most_one_open (s, record_call (ShutdownRequest h) w)"
      by (simp add: record_call_one_open)
    show ?thesis
    proof (cases "shutdown_result io")
      case None
      with Some Pair close_connections_one_open[OF b] show ?thesis
        by (simp add: shutdown_kernel_def Let_def)
    next
      case e: (Some e)
      with Some Pair forceful_shutdown_one_open[OF b] show ?thesis
        by (simp add: shutdown_kernel_def Let_def)
    qed
  qed
qed

lemma connect_stops_then_creates:
  assumes "kernel_client s = Some old" and "old < next_handle w"
    and "expanduser io (resolve_connection_file env connection_file) = Inr connection_path"
    and "path_exists io connection_path"
    and "read_json io connection_path = Inr connection_info"
    and "stop_channels_result io = None"
  shows "\<exists>report s' w' rest.
           connect_to_kernel py env is_windows io connection_file (s, w) = (report, s', w') \<and>
           calls w' = calls w @ StopChannels old # NewClient (next_handle w) # rest \<and>
           kernel_client s' = Some (next_handle w) \<and> next_handle w \<noteq> old \<and>
           old \<notin> live w' \<and> live w' \<subseteq> insert (next_handle w) (live w - {old}) \<and>
           (live w \<subseteq> {old} \<longrightarrow> live w' \<subseteq> {next_handle w})"
  using assms
  by (auto simp: connect_to_kernel_def open_connection_def close_existing_def world_defs Let_def
      split: option.splits sum.splits)

text \<open>
  C5: connect_to_kernel, disconnect_kernel and shutdown_kernel keep the invariant that at
  most one client holds channel resources and that it is the one in the connection slot.
  And when connect_to_kernel is called while a prior handle is stored, the descriptor loads
  and stop_channels on the prior handle returns, then the calls it makes begin with
  stop_channels on the prior handle followed by the creation of the new client, the slot
  holds the new handle, which is not the prior one, and the prior handle no longer counts
  as open.
\<close>

theorem connect_closes_prior_connection_first:
  "(at_most_one_open (s, w) \<longrightarrow>
      at_most_one_open (snd (connect_to_kernel py env is_windows io connection_file (s, w))) \<and>
      at_most_one_open (snd (disconnect_kernel py io (s, w))) \<and>
      at_most_one_open (snd (shutdown_kernel py is_windows io (s, w)))) \<and>
   (kernel_client s = Some old \<and> old < next_handle w \<and>
    expanduser io (resolve_connection_file env connection_file) = Inr connection_path \<and>
    path_exists io connection_path \<and> read_json io connection_path = Inr connection_info \<and>
    stop_channels_result io = None \<longrightarrow>
      (\<exists>report s' w' rest.
           connect_to_kernel py env is_windows io connection_file (s, w) = (report, s', w') \<and>
           calls w' = calls w @ StopChannels old # NewClient (next_handle w) # rest \<and>
           kernel_client s' = Some (next_handle w) \<and> next_handle w \<noteq> old \<and>
           old \<notin> live w' \<and> live w' \<subseteq> insert (next_handle w) (live w - {old}) \<and>
           (live w \<subseteq> {old} \<longrightarrow> live w' \<subseteq> {next_handle w})))"
  using connect_to_kernel_one_open[of "(s, w)" py env is_windows io connection_file]
    disconnect_kernel_one_open[of "(s, w)" py io]
    shutdown_kernel_one_open[of "(s, w)" py is_windows io]
    connect_stops_then_creates[of s old w io env connection_file connection_path connection_info py is_windows]
  by blast

theorem connect_closes_prior_connection_first_witness:
  "calls (snd (snd (connect_to_kernel sample_py sample_env False sample_io None
       (sample_session, sample_world)))) =
     calls sample_world @
       [StopChannels 0, NewClient 1, LoadConnectionInfo 1, StartChannels 1, WaitForReady 1] \<and>
   kernel_client (fst (snd (connect_to_kernel sample_py sample_env False sample_io None
       (sample_session, sample_world)))) = Some 1 \<and>
   live (snd (snd (connect_to_kernel sample_py sample_env False sample_io None
       (sample_session, sample_world)))) = {1}"
proof -
  have h1: "kernel_client sample_session = Some 0" by (simp add: sample_session_def)
  have h2: "0 < next_handle sample_world" by (simp add: sample_world_def)
  have h3: "expanduser sample_io (resolve_connection_file sample_env None) = Inr (lit ''/pkg/default_connection.json'')"
    by (simp add: sample_defs)
  have h4: "path_exists sample_io (lit ''/pkg/default_connection.json'')" by (simp add: sample_io_def)
  have h5: "read_json sample_io (lit ''/pkg/default_connection.json'') =
      Inr (JObj [(lit ''ip'', JStr (lit ''127.0.0.1'')), (lit ''shell_port'', JInt 5555),
                 (lit ''key'', JStr (lit ''0123456789abcdef''))])"
    by (simp add: sample_io_def)
  have h6: "stop_channels_result sample_io = None" by (simp add: sample_io_def)
  from h1 h2 h3 h4 h5 h6
    connect_closes_prior_connection_first[of sample_session sample_world sample_py sample_env False
      sample_io None 0 "lit ''/pkg/default_connection.json''"]
  obtain report s' w' rest where
    c: "connect_to_kernel sample_py sample_env False sample_io None (sample_session, sample_world) = (report, s', w')"
    and k: "kernel_client s' = Some (next_handle sample_world)"
    and l: "live sample_world \<subseteq> {0} \<longrightarrow> live w' \<subseteq> {next_handle sample_world}"
    by blast
  have ev: "calls (snd (snd (connect_to_kernel sample_py sample_env False sample_io None
       (sample_session, sample_world)))) =
     calls sample_world @
       [StopChannels 0, NewClient 1, LoadConnectionInfo 1, StartChannels 1, WaitForReady 1] \<and>
     1 \<in> live (snd (snd (connect_to_kernel sample_py sample_env False sample_io None
       (sample_session, sample_world))))"
    by (simp add: connect_to_kernel_def open_connection_def close_existing_def world_defs Let_def
        connected_report_def subscript_def slice_to_def sample_defs)
  from l have "live w' \<subseteq> {1}" by (simp add: sample_world_def)
  with c k ev show ?thesis by (auto simp: sample_world_def)
qed

end
